theory Spec2Isabelle
  imports Complex_Main "HOL-Library.AList"
begin

section \<open>Python values\<close>

text \<open>
  The predictor of \<^verbatim>\<open>ai_predictor.py\<close> keeps its statistics in dictionaries that are
  written to and read back from JSON documents, so the values it handles are dynamically
  typed. A dictionary is an association list in insertion order; its keys are integers
  (as written by \<^verbatim>\<open>__init__\<close> and \<^verbatim>\<open>reset_data\<close>) or strings (as written by
  \<^verbatim>\<open>_update_statistics\<close> and by the JSON parser). A float is represented by the real
  number it denotes.
\<close>

datatype error =
  TypeError | KeyError | AttributeError | ValueError | ZeroDivisionError | UnboundLocalError
  | EstimatorError

datatype key = IKey int | SKey string

datatype pyval =
    PNone
  | PBool bool
  | PInt int
  | PFloat real
  | PStr string
  | PList "pyval list"
  | PDict "(key \<times> pyval) list"

section \<open>The strategy selector\<close>

text \<open>
  \<^verbatim>\<open>total = predicted_player_fingers + robot_fingers\<close>: the right operand is an element of
  \<^verbatim>\<open>range(1, 6)\<close>; the left operand is whatever the prediction holds. Adding an integer
  to a string, \<^verbatim>\<open>None\<close>, a list or a dictionary raises \<^verbatim>\<open>TypeError\<close>.
\<close>

fun py_add_int :: "pyval \<Rightarrow> int \<Rightarrow> error + pyval" where
  "py_add_int (PInt n) r = Inr (PInt (n + r))"
| "py_add_int (PBool b) r = Inr (PInt (of_bool b + r))"
| "py_add_int (PFloat x) r = Inr (PFloat (x + of_int r))"
| "py_add_int v r = Inl TypeError"

text \<open>\<^verbatim>\<open>total % 2 == 1\<close> on the number that the addition produced.\<close>

fun mod2_is_1 :: "pyval \<Rightarrow> bool" where
  "mod2_is_1 (PInt t) = (t mod 2 = 1)"
| "mod2_is_1 (PFloat x) = (x - 2 * of_int \<lfloor>x / 2\<rfloor> = 1)"
| "mod2_is_1 v = False"

text \<open>
  The loop \<^verbatim>\<open>for robot_fingers in range(1, 6)\<close> of \<^verbatim>\<open>get_robot_strategy\<close>, with the list
  \<^verbatim>\<open>good_choices\<close> as accumulator. An exception of the addition leaves the loop.
\<close>

fun good_choices_loop :: "pyval \<Rightarrow> string \<Rightarrow> int list \<Rightarrow> int list \<Rightarrow> error + int list" where
  "good_choices_loop p target_parity [] good_choices = Inr good_choices"
| "good_choices_loop p target_parity (robot_fingers # rest) good_choices =
     (case py_add_int p robot_fingers of
        Inl e \<Rightarrow> Inl e
      | Inr total_sum \<Rightarrow>
          (let total_parity = (if mod2_is_1 total_sum then ''odd'' else ''even'')
           in good_choices_loop p target_parity rest
                (if total_parity = target_parity then good_choices @ [robot_fingers]
                 else good_choices)))"

text \<open>
  \<^verbatim>\<open>random.choice(seq)\<close> returns the element of a non-empty sequence at an index drawn
  below its length. The draw is an argument of the model: \<open>rnd\<close> is the raw random number
  and the index is its remainder.
\<close>

definition random_choice :: "nat \<Rightarrow> 'a list \<Rightarrow> 'a" where
  "random_choice rnd xs = xs ! (rnd mod length xs)"

text \<open>
  The body of the \<^verbatim>\<open>try\<close> block. The statement \<^verbatim>\<open>import random\<close> stands inside the
  \<^verbatim>\<open>if good_choices:\<close> branch and the module imports \<^verbatim>\<open>random\<close> nowhere else, so the
  name is local to the function and not yet bound when the \<^verbatim>\<open>else\<close> branch evaluates
  \<^verbatim>\<open>random.randint(1, 5)\<close>: that branch raises \<^verbatim>\<open>UnboundLocalError\<close>.
\<close>

definition robot_strategy_try :: "nat \<Rightarrow> pyval \<Rightarrow> pyval \<Rightarrow> error + int" where
  "robot_strategy_try rnd predicted_player_fingers predicted_choice =
     (let target_parity = (if predicted_choice = PStr ''odds'' then ''even'' else ''odd'')
      in case good_choices_loop predicted_player_fingers target_parity [1, 2, 3, 4, 5] [] of
           Inl e \<Rightarrow> Inl e
         | Inr good_choices \<Rightarrow>
             if good_choices \<noteq> [] then Inr (random_choice rnd good_choices)
             else Inl UnboundLocalError)"

text \<open>\<^verbatim>\<open>except Exception\<close>: every exception of the body is answered by the safe default 3.\<close>

definition get_robot_strategy :: "nat \<Rightarrow> pyval \<Rightarrow> pyval \<Rightarrow> int" where
  "get_robot_strategy rnd predicted_player_fingers predicted_choice =
     (case robot_strategy_try rnd predicted_player_fingers predicted_choice of
        Inl e \<Rightarrow> 3
      | Inr robot_fingers \<Rightarrow> robot_fingers)"

text \<open>
  The validation in \<^verbatim>\<open>GameEngine.start_countdown_sequence\<close> (\<^verbatim>\<open>game_engine.py\<close>), which
  decides the number the robot shows from the selector's answer.
\<close>

definition valid_numbers :: "int list" where
  "valid_numbers = [1, 2, 3, 4, 5]"

definition smart_robot_number :: "nat \<Rightarrow> int \<Rightarrow> int" where
  "smart_robot_number rnd ai_robot_number =
     (if ai_robot_number \<in> set valid_numbers then ai_robot_number
      else random_choice rnd valid_numbers)"

section \<open>Round records, statistics and the predictor object\<close>

text \<open>
  The round record that \<^verbatim>\<open>GameEngine._process_round_result\<close> builds and hands to
  \<^verbatim>\<open>update_model\<close>, restricted to the keys the predictor reads (each with
  \<^verbatim>\<open>game_data.get(key, default)\<close>): a field is \<open>None\<close> when the key is absent, which is
  where \<^verbatim>\<open>get\<close> supplies its default. The engine stores integers, the strings
  \<^verbatim>\<open>"odds"\<close>/\<^verbatim>\<open>"evens"\<close> and booleans under these keys.
\<close>

record round_data =
  current_round :: "int option"
  player_fingers :: "int option"
  player_choice :: "string option"
  player_won_round :: "bool option"
  game_finished :: "bool option"

text \<open>
  \<^verbatim>\<open>self.player_stats\<close>. The five keys that every statistics dictionary of the program
  has (the constructor writes them and \<^verbatim>\<open>load_data\<close> accepts no document without them)
  are fields; their values are arbitrary Python values, since an accepted document is
  taken over unchanged. All other entries (\<^verbatim>\<open>'patterns'\<close>, unknown keys of a document) are
  kept in \<open>other_entries\<close>.
\<close>

record statistics =
  total_games :: pyval
  total_rounds :: pyval
  finger_counts :: pyval
  choice_history :: pyval
  win_rate :: pyval
  other_entries :: "(key \<times> pyval) list"

definition default_stats :: statistics where
  "default_stats =
     \<lparr> total_games = PInt 0,
       total_rounds = PInt 0,
       finger_counts = PDict [(IKey 1, PInt 0), (IKey 2, PInt 0), (IKey 3, PInt 0),
                              (IKey 4, PInt 0), (IKey 5, PInt 0)],
       choice_history = PDict [(SKey ''odds'', PInt 0), (SKey ''evens'', PInt 0)],
       win_rate = PFloat 0,
       other_entries = [(SKey ''patterns'', PDict [])] \<rparr>"

record prediction =
  finger_count :: pyval
  choice :: pyval
  confidence :: real

definition default_prediction :: prediction where
  "default_prediction = \<lparr> finger_count = PInt 3, choice = PStr ''odds'', confidence = 0 \<rparr>"

text \<open>
  The predictor object. \<open>model_state\<close> stands for the four objects of the online-learning
  library (\<^verbatim>\<open>finger_model\<close>, \<^verbatim>\<open>choice_model\<close>, \<^verbatim>\<open>finger_metric\<close>, \<^verbatim>\<open>choice_metric\<close>);
  the library is not part of the repository, so its type is a parameter.
\<close>

record 'm predictor =
  river_available :: bool
  model_state :: 'm
  game_history :: "round_data list"
  player_stats :: statistics
  last_predictions :: prediction

text \<open>The object \<^verbatim>\<open>__init__\<close> builds before it calls \<^verbatim>\<open>load_data\<close>.\<close>

definition init_predictor :: "bool \<Rightarrow> 'm \<Rightarrow> 'm predictor" where
  "init_predictor available fresh_models =
     \<lparr> river_available = available,
       model_state = fresh_models,
       game_history = [],
       player_stats = default_stats,
       last_predictions = default_prediction \<rparr>"


section \<open>Operations on Python values\<close>

text \<open>\<^verbatim>\<open>str(n)\<close> for an integer.\<close>

definition digit_char :: "nat \<Rightarrow> char" where
  "digit_char d = ''0123456789'' ! d"

fun str_nat :: "nat \<Rightarrow> string" where
  "str_nat n = (if n < 10 then [digit_char n] else str_nat (n div 10) @ [digit_char (n mod 10)])"

declare str_nat.simps [simp del]

definition py_str_int :: "int \<Rightarrow> string" where
  "py_str_int i = (if i < 0 then CHR ''-'' # str_nat (nat (- i)) else str_nat (nat i))"

text \<open>\<^verbatim>\<open>k in s\<close> for two strings: \<open>k\<close> occurs in \<open>s\<close> as a contiguous slice.\<close>

fun contains_str :: "string \<Rightarrow> string \<Rightarrow> bool" where
  "contains_str k [] = (k = [])"
| "contains_str k (c # s) = (take (length k) (c # s) = k \<or> contains_str k s)"

text \<open>
  \<^verbatim>\<open>k in container\<close>, \<^verbatim>\<open>container[k]\<close> and \<^verbatim>\<open>container[k] = v\<close> for a string \<open>k\<close>.
  Only a dictionary supports all three; a list or a string answers the membership test
  and raises \<^verbatim>\<open>TypeError\<close> on a string index; the other values raise \<^verbatim>\<open>TypeError\<close>
  throughout.
\<close>

fun py_contains :: "string \<Rightarrow> pyval \<Rightarrow> error + bool" where
  "py_contains k (PDict d) = Inr (SKey k \<in> set (map fst d))"
| "py_contains k (PList xs) = Inr (PStr k \<in> set xs)"
| "py_contains k (PStr s) = Inr (contains_str k s)"
| "py_contains k v = Inl TypeError"

fun py_getitem :: "pyval \<Rightarrow> string \<Rightarrow> error + pyval" where
  "py_getitem (PDict d) k = (case map_of d (SKey k) of None \<Rightarrow> Inl KeyError | Some v \<Rightarrow> Inr v)"
| "py_getitem v k = Inl TypeError"

fun py_setitem :: "pyval \<Rightarrow> string \<Rightarrow> pyval \<Rightarrow> error + pyval" where
  "py_setitem (PDict d) k v = Inr (PDict (AList.update (SKey k) v d))"
| "py_setitem c k v = Inl TypeError"

text \<open>\<^verbatim>\<open>container[k] += 1\<close>: read, add, write back.\<close>

definition py_increment :: "pyval \<Rightarrow> string \<Rightarrow> error + pyval" where
  "py_increment c k =
     (case py_getitem c k of
        Inl e \<Rightarrow> Inl e
      | Inr v \<Rightarrow> (case py_add_int v 1 of
                    Inl e \<Rightarrow> Inl e
                  | Inr v' \<Rightarrow> py_setitem c k v'))"

text \<open>The number a value stands for in a comparison or a sum, if it is a number.\<close>

fun py_number :: "pyval \<Rightarrow> real option" where
  "py_number (PInt i) = Some (of_int i)"
| "py_number (PBool b) = Some (of_bool b)"
| "py_number (PFloat x) = Some x"
| "py_number v = None"

text \<open>
  \<^verbatim>\<open>f"{value:.2%}"\<close> formats integers, booleans and floats; \<^verbatim>\<open>None\<close>, lists and
  dictionaries raise \<^verbatim>\<open>TypeError\<close> and a string raises \<^verbatim>\<open>ValueError\<close>.
\<close>

fun format_percent :: "pyval \<Rightarrow> error + unit" where
  "format_percent (PStr s) = Inl ValueError"
| "format_percent v = (case py_number v of None \<Rightarrow> Inl TypeError | Some x \<Rightarrow> Inr ())"

section \<open>Updating the statistics\<close>

text \<open>
  The statements of \<^verbatim>\<open>_update_statistics\<close>, one definition each, in the order of the
  source. An exception ends the method and propagates through \<^verbatim>\<open>update_model\<close> to the
  game engine; it is the \<open>Inl\<close> result.
\<close>

text \<open>\<^verbatim>\<open>self.player_stats['total_rounds'] += 1\<close>\<close>

definition count_round :: "statistics \<Rightarrow> error + statistics" where
  "count_round st =
     (case py_add_int (total_rounds st) 1 of
        Inl e \<Rightarrow> Inl e
      | Inr n \<Rightarrow> Inr (st\<lparr>total_rounds := n\<rparr>))"

text \<open>
  The finger-count statistics: \<^verbatim>\<open>fingers = game_data.get('player_fingers', 3)\<close>, and for
  \<^verbatim>\<open>1 <= fingers <= 5\<close> the entry under the key \<^verbatim>\<open>str(fingers)\<close> is created with 0 if
  it is missing and then incremented.
\<close>

definition fingers_of :: "round_data \<Rightarrow> int" where
  "fingers_of game_data = (case player_fingers game_data of None \<Rightarrow> 3 | Some f \<Rightarrow> f)"

definition count_fingers :: "round_data \<Rightarrow> statistics \<Rightarrow> error + statistics" where
  "count_fingers game_data st =
     (let fingers = fingers_of game_data in
      if 1 \<le> fingers \<and> fingers \<le> 5 then
        (let finger_key = py_str_int fingers in
         case py_contains finger_key (finger_counts st) of
           Inl e \<Rightarrow> Inl e
         | Inr present \<Rightarrow>
             (case (if \<not> present then py_setitem (finger_counts st) finger_key (PInt 0)
                    else Inr (finger_counts st)) of
                Inl e \<Rightarrow> Inl e
              | Inr fc \<Rightarrow>
                  (case py_increment fc finger_key of
                     Inl e \<Rightarrow> Inl e
                   | Inr fc' \<Rightarrow> Inr (st\<lparr>finger_counts := fc'\<rparr>))))
      else Inr st)"

text \<open>
  The choice statistics: \<^verbatim>\<open>choice = game_data.get('player_choice', 'odds')\<close>, counted when
  it is one of \<^verbatim>\<open>['odds', 'evens']\<close>.
\<close>

definition choice_of :: "round_data \<Rightarrow> string" where
  "choice_of game_data = (case player_choice game_data of None \<Rightarrow> ''odds'' | Some c \<Rightarrow> c)"

definition count_choice :: "round_data \<Rightarrow> statistics \<Rightarrow> error + statistics" where
  "count_choice game_data st =
     (let choice = choice_of game_data in
      if choice \<in> set [''odds'', ''evens''] then
        (case py_increment (choice_history st) choice of
           Inl e \<Rightarrow> Inl e
         | Inr ch \<Rightarrow> Inr (st\<lparr>choice_history := ch\<rparr>))
      else Inr st)"

text \<open>\<^verbatim>\<open>if game_data.get('game_finished', False): self.player_stats['total_games'] += 1\<close>\<close>

definition count_game :: "round_data \<Rightarrow> statistics \<Rightarrow> error + statistics" where
  "count_game game_data st =
     (if (case game_finished game_data of None \<Rightarrow> False | Some b \<Rightarrow> b) then
        (case py_add_int (total_games st) 1 of
           Inl e \<Rightarrow> Inl e
         | Inr n \<Rightarrow> Inr (st\<lparr>total_games := n\<rparr>))
      else Inr st)"

text \<open>
  The win rate. \<^verbatim>\<open>g.get('player_won_round', False)\<close> is the truth value of a round;
  \<open>history_wins\<close> counts the rounds of \<^verbatim>\<open>self.game_history\<close> and \<open>current_win\<close> is the
  round being recorded. The quotient \<^verbatim>\<open>total_wins / self.player_stats['total_rounds']\<close>
  is a float; the model keeps the exact quotient.
\<close>

definition won :: "round_data \<Rightarrow> bool" where
  "won g = (case player_won_round g of None \<Rightarrow> False | Some b \<Rightarrow> b)"

definition py_int_div :: "int \<Rightarrow> pyval \<Rightarrow> error + pyval" where
  "py_int_div a v =
     (case py_number v of
        None \<Rightarrow> Inl TypeError
      | Some x \<Rightarrow> if x = 0 then Inl ZeroDivisionError else Inr (PFloat (of_int a / x)))"

definition update_win_rate :: "round_data list \<Rightarrow> round_data \<Rightarrow> statistics \<Rightarrow> error + statistics"
  where
  "update_win_rate history game_data st =
     (case py_number (total_rounds st) of
        None \<Rightarrow> Inl TypeError
      | Some n \<Rightarrow>
          if n > 0 then
            (let history_wins = int (length (filter won history));
                 current_win = (if won game_data then 1 else 0);
                 total_wins = history_wins + current_win
             in case py_int_div total_wins (total_rounds st) of
                  Inl e \<Rightarrow> Inl e
                | Inr w \<Rightarrow> Inr (st\<lparr>win_rate := w\<rparr>))
          else Inr st)"

text \<open>
  \<^verbatim>\<open>_update_statistics\<close>: the five steps, then the \<^verbatim>\<open>print\<close> that formats the win rate
  with \<^verbatim>\<open>:.2%\<close>.
\<close>

definition update_statistics :: "'m predictor \<Rightarrow> round_data \<Rightarrow> error + 'm predictor" where
  "update_statistics s game_data =
     (case count_round (player_stats s) of Inl e \<Rightarrow> Inl e | Inr st1 \<Rightarrow>
      case count_fingers game_data st1 of Inl e \<Rightarrow> Inl e | Inr st2 \<Rightarrow>
      case count_choice game_data st2 of Inl e \<Rightarrow> Inl e | Inr st3 \<Rightarrow>
      case count_game game_data st3 of Inl e \<Rightarrow> Inl e | Inr st4 \<Rightarrow>
      case update_win_rate (game_history s) game_data st4 of Inl e \<Rightarrow> Inl e | Inr st5 \<Rightarrow>
      case format_percent (win_rate st5) of Inl e \<Rightarrow> Inl e | Inr u \<Rightarrow>
        Inr (s\<lparr>player_stats := st5\<rparr>))"


section \<open>Features and the online models\<close>

text \<open>
  \<^verbatim>\<open>extract_features\<close>. The wall clock (\<^verbatim>\<open>datetime.now()\<close>) is an argument. The game state
  is read with \<^verbatim>\<open>game_state.get\<close>, so its fields are optional as well.
\<close>

record clock =
  clock_hour :: int
  clock_minute :: int
  clock_weekday :: int

record game_state =
  gs_current_round :: "int option"
  gs_player_wins :: "int option"
  gs_robot_wins :: "int option"

record features =
  hour :: int
  minute :: int
  day_of_week :: int
  f_current_round :: int
  f_player_wins :: int
  f_robot_wins :: int
  rounds_played :: nat
  avg_recent_fingers :: real
  last_finger_count :: int
  recent_odds_ratio :: real
  recent_win_rate :: real
  finger_change :: int

definition mean :: "int list \<Rightarrow> real" where
  "mean xs = of_int (sum_list xs) / of_nat (length xs)"

definition or_default :: "'a \<Rightarrow> 'a option \<Rightarrow> 'a" where
  "or_default d x = (case x of None \<Rightarrow> d | Some v \<Rightarrow> v)"

definition extract_features :: "clock \<Rightarrow> round_data list \<Rightarrow> game_state \<Rightarrow> features" where
  "extract_features now history gs =
     (let recent_games = drop (length history - 5) history;
          recent_fingers = map fingers_of recent_games;
          recent_choices = map (\<lambda>g. if player_choice g = Some ''odds'' then 1 else 0) recent_games;
          recent_wins = map (\<lambda>g. if won g then 1 else 0) recent_games
      in \<lparr> hour = clock_hour now,
           minute = clock_minute now,
           day_of_week = clock_weekday now,
           f_current_round = or_default 1 (gs_current_round gs),
           f_player_wins = or_default 0 (gs_player_wins gs),
           f_robot_wins = or_default 0 (gs_robot_wins gs),
           rounds_played = length history,
           avg_recent_fingers = (if history \<noteq> [] then mean recent_fingers else 3),
           last_finger_count = (if history \<noteq> [] then last recent_fingers else 3),
           recent_odds_ratio = (if history \<noteq> [] then mean recent_choices else 1 / 2),
           recent_win_rate = (if history \<noteq> [] then mean recent_wins else 1 / 2),
           finger_change =
             (if length history \<ge> 2
              then fingers_of (last history) - fingers_of (last (butlast history))
              else 0) \<rparr>)"

text \<open>
  The online-learning library as the predictor uses it. \<open>predict_one\<close> is the answer of
  \<^verbatim>\<open>finger_model.predict_one\<close> and \<open>predict_proba_one\<close> the dictionary answered by
  \<^verbatim>\<open>choice_model.predict_proba_one\<close> (keys \<^verbatim>\<open>True\<close>/\<^verbatim>\<open>False\<close>); either call may raise.
  \<open>learn\<close> is the model state that the \<^verbatim>\<open>try\<close> block of \<^verbatim>\<open>update_model\<close> leaves behind
  (two \<^verbatim>\<open>learn_one\<close> calls and two metric updates, any exception swallowed by its
  \<^verbatim>\<open>except\<close> clause).
\<close>

record 'm river =
  predict_one :: "'m \<Rightarrow> features \<Rightarrow> error + pyval"
  predict_proba_one :: "'m \<Rightarrow> features \<Rightarrow> error + (bool \<times> real) list"
  learn :: "'m \<Rightarrow> features \<Rightarrow> int \<Rightarrow> bool \<Rightarrow> prediction \<Rightarrow> 'm"

section \<open>Learning from a round\<close>

text \<open>
  \<^verbatim>\<open>update_model\<close>. Without the library the statistics are updated and the method
  returns; with it, the models learn (\<open>learn_round\<close>: the features, the realised
  outcome and the \<^verbatim>\<open>try\<close> block), the statistics are updated and the round is
  appended to the history.
\<close>

definition learn_round :: "'m river \<Rightarrow> clock \<Rightarrow> 'm predictor \<Rightarrow> round_data \<Rightarrow> 'm predictor" where
  "learn_round lib now s game_data =
     (let feats = extract_features now (game_history s)
                     \<lparr> gs_current_round = Some (or_default 1 (current_round game_data)),
                       gs_player_wins = None, gs_robot_wins = None \<rparr>;
          actual_fingers = fingers_of game_data;
          actual_choice_binary = (choice_of game_data = ''odds'')
      in s\<lparr>model_state :=
             learn lib (model_state s) feats actual_fingers actual_choice_binary
               (last_predictions s)\<rparr>)"

definition update_model ::
  "'m river \<Rightarrow> clock \<Rightarrow> 'm predictor \<Rightarrow> round_data \<Rightarrow> error + 'm predictor" where
  "update_model lib now s game_data =
     (if \<not> river_available s then update_statistics s game_data
      else
        (case update_statistics (learn_round lib now s game_data) game_data of
           Inl e \<Rightarrow> Inl e
         | Inr s2 \<Rightarrow> Inr (s2\<lparr>game_history := game_history s2 @ [game_data]\<rparr>)))"

text \<open>A sequence of calls of \<^verbatim>\<open>update_model\<close>, one per round, stopping at an exception.\<close>

fun update_model_all ::
  "'m river \<Rightarrow> clock \<Rightarrow> 'm predictor \<Rightarrow> round_data list \<Rightarrow> error + 'm predictor" where
  "update_model_all lib now s [] = Inr s"
| "update_model_all lib now s (g # gs) =
     (case update_model lib now s g of
        Inl e \<Rightarrow> Inl e
      | Inr s' \<Rightarrow> update_model_all lib now s' gs)"

section \<open>Predicting the player\<close>

text \<open>
  \<^verbatim>\<open>_simple_prediction\<close> runs the same three lines on \<^verbatim>\<open>finger_counts\<close> and on
  \<^verbatim>\<open>choice_history\<close>: \<^verbatim>\<open>sum(d.values()) > 0\<close> decides between
  \<^verbatim>\<open>max(d, key=d.get)\<close> and a default. \<^verbatim>\<open>values()\<close> exists on a dictionary only
  (\<^verbatim>\<open>AttributeError\<close> otherwise), the sum needs numbers (\<^verbatim>\<open>TypeError\<close> otherwise),
  and \<^verbatim>\<open>max\<close> answers the first key, in the dictionary's order, whose value is not
  exceeded by a later one. The answer is a key of the dictionary, as it is stored.
\<close>

fun numbers :: "(key \<times> pyval) list \<Rightarrow> (key \<times> real) list option" where
  "numbers [] = Some []"
| "numbers ((k, v) # rest) =
     (case py_number v of
        None \<Rightarrow> None
      | Some x \<Rightarrow> (case numbers rest of None \<Rightarrow> None | Some kxs \<Rightarrow> Some ((k, x) # kxs)))"

fun max_key :: "key \<Rightarrow> real \<Rightarrow> (key \<times> real) list \<Rightarrow> key" where
  "max_key best best_value [] = best"
| "max_key best best_value ((k, x) # rest) =
     (if x > best_value then max_key k x rest else max_key best best_value rest)"

fun key_value :: "key \<Rightarrow> pyval" where
  "key_value (IKey i) = PInt i"
| "key_value (SKey k) = PStr k"

definition most_common :: "pyval \<Rightarrow> pyval \<Rightarrow> error + pyval" where
  "most_common counts dflt =
     (case counts of
        PDict d \<Rightarrow>
          (case numbers d of
             None \<Rightarrow> Inl TypeError
           | Some kxs \<Rightarrow>
               if sum_list (map snd kxs) > 0 then
                 (case kxs of
                    [] \<Rightarrow> Inl ValueError
                  | (k, x) # rest \<Rightarrow> Inr (key_value (max_key k x rest)))
               else Inr dflt)
      | _ \<Rightarrow> Inl AttributeError)"

definition simple_prediction :: "statistics \<Rightarrow> error + prediction" where
  "simple_prediction st =
     (case most_common (finger_counts st) (PInt 3) of
        Inl e \<Rightarrow> Inl e
      | Inr most_common_fingers \<Rightarrow>
          (case most_common (choice_history st) (PStr ''odds'') of
             Inl e \<Rightarrow> Inl e
           | Inr most_common_choice \<Rightarrow>
               Inr \<lparr> finger_count = most_common_fingers,
                     choice = most_common_choice,
                     confidence = 1 / 10 \<rparr>))"

text \<open>
  \<^verbatim>\<open>round(x)\<close> rounds a float to the nearest integer, a tie to the even one; an integer
  is its own rounding; a value without \<^verbatim>\<open>__round__\<close> raises \<^verbatim>\<open>TypeError\<close>.
\<close>

definition round_half_even :: "real \<Rightarrow> int" where
  "round_half_even x =
     (let f = \<lfloor>x\<rfloor>; d = x - of_int f
      in if d < 1 / 2 then f else if d > 1 / 2 then f + 1 else if even f then f else f + 1)"

fun py_round :: "pyval \<Rightarrow> error + int" where
  "py_round (PFloat x) = Inr (round_half_even x)"
| "py_round (PInt i) = Inr i"
| "py_round (PBool b) = Inr (of_bool b)"
| "py_round v = Inl TypeError"

text \<open>
  The body of the \<^verbatim>\<open>try\<close> block of \<^verbatim>\<open>predict_player_behavior\<close>, up to the dictionary
  it stores in \<^verbatim>\<open>self.last_predictions\<close>. A float that is not finite makes \<^verbatim>\<open>round\<close>
  raise inside the block; this is the \<open>Inl\<close> answer of \<open>predict_one\<close>.
\<close>

definition online_prediction :: "'m river \<Rightarrow> 'm \<Rightarrow> features \<Rightarrow> error + prediction" where
  "online_prediction lib models feats =
     (case predict_one lib models feats of
        Inl e \<Rightarrow> Inl e
      | Inr raw \<Rightarrow>
          (case py_round raw of
             Inl e \<Rightarrow> Inl e
           | Inr rounded \<Rightarrow>
               (let predicted_fingers = max 1 (min 5 rounded) in
                case predict_proba_one lib models feats of
                  Inl e \<Rightarrow> Inl e
                | Inr choice_proba \<Rightarrow>
                    if choice_proba \<noteq> [] then
                      (let odds_prob = or_default (1 / 2) (map_of choice_proba True)
                       in Inr \<lparr> finger_count = PInt predicted_fingers,
                                choice = PStr (if odds_prob > 1 / 2 then ''odds'' else ''evens''),
                                confidence = \<bar>odds_prob - 1 / 2\<bar> * 2 \<rparr>)
                    else
                      Inr \<lparr> finger_count = PInt predicted_fingers,
                            choice = PStr ''odds'',
                            confidence = 0 \<rparr>)))"

text \<open>
  \<^verbatim>\<open>predict_player_behavior\<close> answers the prediction and leaves the object with
  \<^verbatim>\<open>last_predictions\<close> updated (in the degraded mode the attribute is not written).
  An exception of \<^verbatim>\<open>_simple_prediction\<close> is not caught on either path.
\<close>

definition predict_player_behavior ::
  "'m river \<Rightarrow> clock \<Rightarrow> 'm predictor \<Rightarrow> game_state \<Rightarrow> error + prediction \<times> 'm predictor" where
  "predict_player_behavior lib now s gs =
     (if \<not> river_available s then
        (case simple_prediction (player_stats s) of
           Inl e \<Rightarrow> Inl e
         | Inr p \<Rightarrow> Inr (p, s))
      else
        (let feats = extract_features now (game_history s) gs in
         case online_prediction lib (model_state s) feats of
           Inr p \<Rightarrow> Inr (p, s\<lparr>last_predictions := p\<rparr>)
         | Inl e \<Rightarrow>
             (case simple_prediction (player_stats s) of
                Inl e' \<Rightarrow> Inl e'
              | Inr p \<Rightarrow> Inr (p, s\<lparr>last_predictions := p\<rparr>))))"

section \<open>Saving and loading\<close>













text \<open>
  The loop \<^verbatim>\<open>for i in range(1, 6)\<close> that creates the missing entries \<^verbatim>\<open>str(i)\<close> of
  \<^verbatim>\<open>finger_counts\<close>.
\<close>

fun backfill :: "int list \<Rightarrow> pyval \<Rightarrow> error + pyval" where
  "backfill [] fc = Inr fc"
| "backfill (i # rest) fc =
     (case py_contains (py_str_int i) fc of
        Inl e \<Rightarrow> Inl e
      | Inr present \<Rightarrow>
          (case (if \<not> present then py_setitem fc (py_str_int i) (PInt 0) else Inr fc) of
             Inl e \<Rightarrow> Inl e
           | Inr fc' \<Rightarrow> backfill rest fc'))"



section \<open>Notions used in the statements\<close>

subsection \<open>Counts in a mapping\<close>

text \<open>
  The count stored under a key (0 when the key is absent or the value is no integer),
  the sum of the counts under a list of keys, and the sum of all values of a mapping,
  which is what \<^verbatim>\<open>sum(finger_counts.values())\<close> computes when every value is an
  integer (\<open>int_valued\<close>). \<open>finger_keys\<close> are the keys \<^verbatim>\<open>str(1)\<close> to \<^verbatim>\<open>str(5)\<close>.
\<close>

fun int_of_value :: "pyval \<Rightarrow> int" where
  "int_of_value (PInt c) = c"
| "int_of_value v = 0"

fun is_int :: "pyval \<Rightarrow> bool" where
  "is_int (PInt c) = True"
| "is_int v = False"

definition usage :: "(key \<times> pyval) list \<Rightarrow> key \<Rightarrow> int" where
  "usage d k = (case map_of d k of None \<Rightarrow> 0 | Some v \<Rightarrow> int_of_value v)"

definition usage_total :: "(key \<times> pyval) list \<Rightarrow> key list \<Rightarrow> int" where
  "usage_total d ks = sum_list (map (usage d) ks)"

definition values_total :: "(key \<times> pyval) list \<Rightarrow> int" where
  "values_total d = sum_list (map (\<lambda>(k, v). int_of_value v) d)"

definition int_valued :: "(key \<times> pyval) list \<Rightarrow> bool" where
  "int_valued d = list_all (\<lambda>(k, v). is_int v) d"

definition finger_keys :: "key list" where
  "finger_keys = map (\<lambda>i. SKey (py_str_int i)) [1, 2, 3, 4, 5]"

definition default_counts :: "(key \<times> pyval) list" where
  "default_counts = [(IKey 1, PInt 0), (IKey 2, PInt 0), (IKey 3, PInt 0),
                     (IKey 4, PInt 0), (IKey 5, PInt 0)]"

text \<open>
  What one round does to a mapping of integer counts: the entry under a string key is
  incremented, or created with 1 (\<open>bump\<close>); a round changes the finger counts only if
  its finger count lies in 1..5 (\<open>in_range\<close>, \<open>tally\<close>). \<open>wins\<close> is the number of rounds
  of a list that the player won.
\<close>

definition bump :: "string \<Rightarrow> (key \<times> pyval) list \<Rightarrow> (key \<times> pyval) list" where
  "bump k d = AList.update (SKey k) (PInt (usage d (SKey k) + 1)) d"

definition in_range :: "round_data \<Rightarrow> bool" where
  "in_range g = (1 \<le> fingers_of g \<and> fingers_of g \<le> 5)"

definition tally :: "(key \<times> pyval) list \<Rightarrow> round_data \<Rightarrow> (key \<times> pyval) list" where
  "tally d g = (if in_range g then bump (py_str_int (fingers_of g)) d else d)"

definition wins :: "round_data list \<Rightarrow> int" where
  "wins gs = int (length (filter won gs))"

text \<open>
  Statistics on which \<open>_update_statistics\<close> cannot raise: integer totals, integer
  counts, and both choices present in the choice history. The defaults of the
  constructor are of this kind, and the method keeps them so.
\<close>

definition counting :: "statistics \<Rightarrow> bool" where
  "counting st =
     (is_int (total_games st) \<and> is_int (total_rounds st)
      \<and> (case finger_counts st of PDict d \<Rightarrow> int_valued d | _ \<Rightarrow> False)
      \<and> (case choice_history st of
            PDict d \<Rightarrow> int_valued d \<and> SKey ''odds'' \<in> set (map fst d)
                         \<and> SKey ''evens'' \<in> set (map fst d)
          | _ \<Rightarrow> False))"

subsection \<open>Documents and states\<close>









subsection \<open>Concrete inputs\<close>

text \<open>
  Inputs for the evaluations below. \<open>untrained_river\<close> answers as the pipelines that
  \<^verbatim>\<open>__init__\<close> constructs do before any \<^verbatim>\<open>learn_one\<close>: a linear regression whose weights
  and intercept are zero predicts 0.0, and a logistic regression whose weights are zero
  gives both classes the probability one half. The library is not part of the
  repository; these two answers are what is assumed of it.
\<close>

definition untrained_river :: "unit river" where
  "untrained_river =
     \<lparr> predict_one = (\<lambda>m f. Inr (PFloat 0)),
       predict_proba_one = (\<lambda>m f. Inr [(False, 1 / 2), (True, 1 / 2)]),
       learn = (\<lambda>m f a b p. m) \<rparr>"

definition noon :: clock where
  "noon = \<lparr> clock_hour = 12, clock_minute = 0, clock_weekday = 0 \<rparr>"

definition a_round :: "int \<Rightarrow> string \<Rightarrow> bool \<Rightarrow> round_data" where
  "a_round f c w =
     \<lparr> current_round = Some 1, player_fingers = Some f, player_choice = Some c,
       player_won_round = Some w, game_finished = Some False \<rparr>"

definition first_round :: game_state where
  "first_round = \<lparr> gs_current_round = Some 1, gs_player_wins = Some 0, gs_robot_wins = Some 0 \<rparr>"





section \<open>Properties of the strategy selector\<close>

lemma random_choice_mem: "xs \<noteq> [] \<Longrightarrow> random_choice rnd xs \<in> set xs"
  by (simp add: random_choice_def)

lemma good_choices_loop_int:
  "good_choices_loop (PInt n) t rs good =
     Inr (good @ filter (\<lambda>r. (if (n + r) mod 2 = 1 then ''odd'' else ''even'') = t) rs)"
  by (induction rs arbitrary: good) simp_all

lemma good_choices_loop_str: "rs \<noteq> [] \<Longrightarrow> good_choices_loop (PStr s) t rs good = Inl TypeError"
  by (cases rs) simp_all

lemma even_candidate_exists:
  "\<exists>r \<in> set [1, 2, 3, 4, 5 :: int]. (n + r) mod 2 \<noteq> 1"
proof (cases "n mod 2 = 1")
  case True
  then have "(n + 1) mod 2 \<noteq> 1" by presburger
  then show ?thesis by simp
next
  case False
  then have "(n + 2) mod 2 \<noteq> 1" by presburger
  then show ?thesis by simp
qed

lemma odd_candidate_exists:
  "\<exists>r \<in> set [1, 2, 3, 4, 5 :: int]. (n + r) mod 2 = 1"
proof (cases "n mod 2 = 1")
  case True
  then have "(n + 2) mod 2 = 1" by presburger
  then show ?thesis by simp
next
  case False
  then have "(n + 1) mod 2 = 1" by presburger
  then show ?thesis by simp
qed

lemma random_choice_filter:
  assumes "\<exists>r \<in> set rs. P r"
  shows "random_choice rnd (filter P rs) \<in> set rs \<and> P (random_choice rnd (filter P rs))"
proof -
  have "filter P rs \<noteq> []" using assms by (simp add: filter_empty_conv)
  then have "random_choice rnd (filter P rs) \<in> set (filter P rs)" by (rule random_choice_mem)
  then show ?thesis by simp
qed

lemma get_robot_strategy_int:
  assumes "\<exists>r \<in> set [1, 2, 3, 4, 5 :: int]. P r"
    and "P = (\<lambda>r. (if (n + r) mod 2 = 1 then ''odd'' else ''even'') =
                  (if c = PStr ''odds'' then ''even'' else ''odd''))"
  shows "get_robot_strategy rnd (PInt n) c \<in> set [1, 2, 3, 4, 5] \<and>
         P (get_robot_strategy rnd (PInt n) c)"
proof -
  define rs where "rs = [1, 2, 3, 4, 5 :: int]"
  have ex: "\<exists>r \<in> set rs. P r" using assms(1) by (simp only: rs_def)
  then have ne: "filter P rs \<noteq> []" by (simp add: filter_empty_conv)
  have "robot_strategy_try rnd (PInt n) c = Inr (random_choice rnd (filter P rs))"
    using ne unfolding robot_strategy_try_def rs_def [symmetric]
    by (simp add: good_choices_loop_int assms(2))
  then have eq: "get_robot_strategy rnd (PInt n) c = random_choice rnd (filter P rs)"
    by (simp add: get_robot_strategy_def)
  show ?thesis
    using random_choice_filter [OF ex, of rnd] unfolding eq rs_def [symmetric] by simp
qed

lemma get_robot_strategy_odds:
  "get_robot_strategy rnd (PInt n) (PStr ''odds'') \<in> {1..5} \<and>
   even (get_robot_strategy rnd (PInt n) (PStr ''odds'') + n)"
proof -
  define P where "P = (\<lambda>r. (if (n + r) mod 2 = 1 then ''odd'' else ''even'') =
                  (if PStr ''odds'' = PStr ''odds'' then ''even'' else ''odd''))"
  have P_iff: "P r \<longleftrightarrow> (n + r) mod 2 \<noteq> 1" for r by (simp add: P_def)
  have "\<exists>r \<in> set [1, 2, 3, 4, 5 :: int]. P r"
    using even_candidate_exists [of n] unfolding P_iff .
  from get_robot_strategy_int [OF this P_def, of rnd]
  have m: "get_robot_strategy rnd (PInt n) (PStr ''odds'') \<in> set [1, 2, 3, 4, 5]"
    and p: "(n + get_robot_strategy rnd (PInt n) (PStr ''odds'')) mod 2 \<noteq> 1"
    unfolding P_iff by blast+
  from m have "get_robot_strategy rnd (PInt n) (PStr ''odds'') \<in> {1..5}" by auto
  moreover from p have "even (get_robot_strategy rnd (PInt n) (PStr ''odds'') + n)"
    by presburger
  ultimately show ?thesis by simp
qed

lemma get_robot_strategy_evens:
  "get_robot_strategy rnd (PInt n) (PStr ''evens'') \<in> {1..5} \<and>
   odd (get_robot_strategy rnd (PInt n) (PStr ''evens'') + n)"
proof -
  define P where "P = (\<lambda>r. (if (n + r) mod 2 = 1 then ''odd'' else ''even'') =
                  (if PStr ''evens'' = PStr ''odds'' then ''even'' else ''odd''))"
  have P_iff: "P r \<longleftrightarrow> (n + r) mod 2 = 1" for r by (simp add: P_def)
  have "\<exists>r \<in> set [1, 2, 3, 4, 5 :: int]. P r"
    using odd_candidate_exists [of n] unfolding P_iff .
  from get_robot_strategy_int [OF this P_def, of rnd]
  have m: "get_robot_strategy rnd (PInt n) (PStr ''evens'') \<in> set [1, 2, 3, 4, 5]"
    and p: "(n + get_robot_strategy rnd (PInt n) (PStr ''evens'')) mod 2 = 1"
    unfolding P_iff by blast+
  from m have "get_robot_strategy rnd (PInt n) (PStr ''evens'') \<in> {1..5}" by auto
  moreover from p have "odd (get_robot_strategy rnd (PInt n) (PStr ''evens'') + n)"
    by presburger
  ultimately show ?thesis by simp
qed

text \<open>
  Claim C1. For every predicted finger count in 1..5 and every predicted choice among
  ``odds'' and ``evens'', and whatever the random draw, \<open>get_robot_strategy\<close> returns an
  integer in 1..5 whose sum with the predicted finger count is even when the predicted
  choice is ``odds'' and odd when it is ``evens''.
\<close>

theorem get_robot_strategy_defeats_prediction:
  assumes "1 \<le> n" and "n \<le> 5" and "c = ''odds'' \<or> c = ''evens''"
  shows "get_robot_strategy rnd (PInt n) (PStr c) \<in> {1, 2, 3, 4, 5}
       \<and> (c = ''odds'' \<longrightarrow> even (get_robot_strategy rnd (PInt n) (PStr c) + n))
       \<and> (c = ''evens'' \<longrightarrow> odd (get_robot_strategy rnd (PInt n) (PStr c) + n))"
proof -
  have range: "{1..5} = {1, 2, 3, 4, 5 :: int}" by auto
  from assms(3) show ?thesis
  proof
    assume "c = ''odds''"
    then show ?thesis using get_robot_strategy_odds [of rnd n] by (simp add: range)
  next
    assume "c = ''evens''"
    then show ?thesis using get_robot_strategy_evens [of rnd n] by (simp add: range)
  qed
qed

theorem get_robot_strategy_defeats_prediction_witness:
  "get_robot_strategy 7 (PInt 3) (PStr ''odds'') \<in> {1, 2, 3, 4, 5}
   \<and> even (get_robot_strategy 7 (PInt 3) (PStr ''odds'') + 3)
   \<and> get_robot_strategy 7 (PInt 3) (PStr ''odds'') = 3"
proof -
  have "get_robot_strategy 7 (PInt 3) (PStr ''odds'') = 3"
    by (simp add: get_robot_strategy_def robot_strategy_try_def random_choice_def)
  then show ?thesis
    using get_robot_strategy_defeats_prediction [of 3 "''odds''" 7] by simp
qed

section \<open>Statistics after a sequence of rounds\<close>

lemma is_int_conv: "is_int v \<longleftrightarrow> (\<exists>c. v = PInt c)"
  by (cases v) simp_all

lemma int_valued_map_of: "int_valued d \<Longrightarrow> map_of d k = Some v \<Longrightarrow> is_int v"
  by (auto simp: int_valued_def list_all_iff dest: map_of_SomeD)

lemma int_valued_update: "int_valued d \<Longrightarrow> is_int v \<Longrightarrow> int_valued (AList.update k v d)"
  by (induction d) (auto simp: int_valued_def)

lemma values_total_update:
  "values_total (AList.update k v d) = values_total d - usage d k + int_of_value v"
  by (induction d) (auto simp: values_total_def usage_def)

lemma usage_update: "usage (AList.update k v d) k' = (if k' = k then int_of_value v else usage d k')"
  by (simp add: usage_def update_conv')

lemma py_increment_dict:
  assumes "int_valued d" and "SKey k \<in> set (map fst d)"
  shows "py_increment (PDict d) k = Inr (PDict (bump k d))"
proof -
  from assms(2) obtain v where v: "map_of d (SKey k) = Some v"
    by (metis domD dom_map_of_conv_image_fst set_map)
  with assms(1) obtain c where "v = PInt c" using int_valued_map_of is_int_conv by blast
  with v show ?thesis by (simp add: py_increment_def bump_def usage_def)
qed

lemma bump_absent:
  "SKey k \<notin> set (map fst d) \<Longrightarrow> bump k (AList.update (SKey k) (PInt 0) d) = bump k d"
proof -
  assume "SKey k \<notin> set (map fst d)"
  then have "map_of d (SKey k) = None" by (simp add: map_of_eq_None_iff)
  then show ?thesis by (simp add: bump_def usage_def update_conv')
qed

lemma int_valued_bump: "int_valued d \<Longrightarrow> int_valued (bump k d)"
  by (simp add: bump_def int_valued_update)

lemma values_total_bump: "values_total (bump k d) = values_total d + 1"
  by (simp add: bump_def values_total_update)

lemma usage_bump: "usage (bump k d) k' = (if k' = SKey k then usage d k' + 1 else usage d k')"
  by (simp add: bump_def usage_update)

lemma count_fingers_dict:
  assumes "finger_counts st = PDict d" and "int_valued d"
  shows "count_fingers g st =
           Inr (if in_range g then st\<lparr>finger_counts := PDict (bump (py_str_int (fingers_of g)) d)\<rparr>
                else st)"
proof (cases "in_range g")
  case False
  then show ?thesis by (auto simp: count_fingers_def in_range_def Let_def)
next
  case True
  let ?k = "py_str_int (fingers_of g)"
  show ?thesis
  proof (cases "SKey ?k \<in> set (map fst d)")
    case present: True
    with True assms show ?thesis
      using py_increment_dict [OF assms(2) present]
      by (simp add: count_fingers_def in_range_def Let_def)
  next
    case absent: False
    have iv: "int_valued (AList.update (SKey ?k) (PInt 0) d)"
      using assms(2) by (simp add: int_valued_update)
    have pres: "SKey ?k \<in> set (map fst (AList.update (SKey ?k) (PInt 0) d))"
      by (simp add: dom_update)
    show ?thesis
      using True assms(1) absent py_increment_dict [OF iv pres] bump_absent [OF absent]
      by (simp add: count_fingers_def in_range_def Let_def del: set_map)
  qed
qed

lemma py_str_int_digits:
  "py_str_int 1 = ''1''" "py_str_int 2 = ''2''" "py_str_int 3 = ''3''"
  "py_str_int 4 = ''4''" "py_str_int 5 = ''5''"
  by (simp_all add: py_str_int_def str_nat.simps digit_char_def)

lemma finger_keys_eq:
  "finger_keys = [SKey ''1'', SKey ''2'', SKey ''3'', SKey ''4'', SKey ''5'']"
  by (simp add: finger_keys_def py_str_int_digits)

lemma in_range_cases:
  assumes "in_range g"
  obtains "fingers_of g = 1" | "fingers_of g = 2" | "fingers_of g = 3"
        | "fingers_of g = 4" | "fingers_of g = 5"
  using assms unfolding in_range_def by arith

lemma in_range_key: "in_range g \<Longrightarrow> SKey (py_str_int (fingers_of g)) \<in> set finger_keys"
  by (erule in_range_cases) (simp_all add: finger_keys_eq py_str_int_digits)

lemma count_round_int:
  "total_rounds st = PInt n \<Longrightarrow> count_round st = Inr (st\<lparr>total_rounds := PInt (n + 1)\<rparr>)"
  by (simp add: count_round_def)

lemma count_choice_counting:
  assumes "choice_history st = PDict d" and "int_valued d"
    and "SKey ''odds'' \<in> set (map fst d)" and "SKey ''evens'' \<in> set (map fst d)"
  shows "\<exists>d'. count_choice g st = Inr (st\<lparr>choice_history := PDict d'\<rparr>) \<and> int_valued d'
              \<and> SKey ''odds'' \<in> set (map fst d') \<and> SKey ''evens'' \<in> set (map fst d')"
proof (cases "choice_of g = ''odds'' \<or> choice_of g = ''evens''")
  case False
  then have "count_choice g st = Inr st" by (simp add: count_choice_def Let_def)
  moreover have "st = st\<lparr>choice_history := PDict d\<rparr>" using assms(1) by simp
  ultimately show ?thesis using assms by metis
next
  case True
  then have pres: "SKey (choice_of g) \<in> set (map fst d)" using assms(3,4) by metis
  have "count_choice g st = Inr (st\<lparr>choice_history := PDict (bump (choice_of g) d)\<rparr>)"
    using True assms(1) py_increment_dict [OF assms(2) pres]
    by (auto simp: count_choice_def Let_def)
  moreover have "int_valued (bump (choice_of g) d)" using assms(2) by (rule int_valued_bump)
  moreover have "set (map fst (bump (choice_of g) d)) = insert (SKey (choice_of g)) (set (map fst d))"
    by (simp add: bump_def dom_update)
  ultimately show ?thesis using assms(3,4) by blast
qed

lemma count_game_int:
  assumes "total_games st = PInt n"
  shows "\<exists>n'. count_game g st = Inr (st\<lparr>total_games := PInt n'\<rparr>)"
proof (cases "case game_finished g of None \<Rightarrow> False | Some b \<Rightarrow> b")
  case True
  then have "count_game g st = Inr (st\<lparr>total_games := PInt (n + 1)\<rparr>)"
    using assms by (simp add: count_game_def)
  then show ?thesis by blast
next
  case False
  then have "count_game g st = Inr st" by (simp add: count_game_def)
  moreover have "st = st\<lparr>total_games := PInt n\<rparr>" using assms by simp
  ultimately show ?thesis by metis
qed

lemma update_win_rate_int:
  assumes "total_rounds st = PInt n" and "0 < n"
  shows "update_win_rate h g st =
           Inr (st\<lparr>win_rate := PFloat (of_int (wins h + (if won g then 1 else 0)) / of_int n)\<rparr>)"
  using assms by (simp add: update_win_rate_def py_int_div_def Let_def wins_def)

lemma update_statistics_counting:
  assumes c: "counting (player_stats s)"
    and n: "total_rounds (player_stats s) = PInt n" "0 \<le> n"
    and d: "finger_counts (player_stats s) = PDict d"
  shows "\<exists>st'. update_statistics s g = Inr (s\<lparr>player_stats := st'\<rparr>)
              \<and> counting st'
              \<and> total_rounds st' = PInt (n + 1)
              \<and> finger_counts st' = PDict (tally d g)
              \<and> win_rate st' =
                  PFloat (of_int (wins (game_history s) + (if won g then 1 else 0)) / of_int (n + 1))"
proof -
  let ?st = "player_stats s"
  from c d have ivd: "int_valued d" by (simp add: counting_def)
  from c obtain tg where tg: "total_games ?st = PInt tg"
    by (auto simp: counting_def is_int_conv)
  from c obtain ch where ch: "choice_history ?st = PDict ch" "int_valued ch"
      "SKey ''odds'' \<in> set (map fst ch)" "SKey ''evens'' \<in> set (map fst ch)"
    by (auto simp: counting_def split: pyval.splits)
  define st1 where "st1 = ?st\<lparr>total_rounds := PInt (n + 1)\<rparr>"
  have s1: "count_round ?st = Inr st1" unfolding st1_def using n(1) by (rule count_round_int)
  define st2 where "st2 = st1\<lparr>finger_counts := PDict (tally d g)\<rparr>"
  have s2: "count_fingers g st1 = Inr st2"
  proof -
    have "finger_counts st1 = PDict d" using d by (simp add: st1_def)
    from count_fingers_dict [OF this ivd, of g] show ?thesis
      using d by (auto simp: st2_def tally_def st1_def)
  qed
  have "choice_history st2 = PDict ch" using ch(1) by (simp add: st2_def st1_def)
  from count_choice_counting [OF this ch(2,3,4), of g]
  obtain ch' where s3: "count_choice g st2 = Inr (st2\<lparr>choice_history := PDict ch'\<rparr>)"
    and ch': "int_valued ch'" "SKey ''odds'' \<in> set (map fst ch')"
      "SKey ''evens'' \<in> set (map fst ch')"
    by blast
  define st3 where "st3 = st2\<lparr>choice_history := PDict ch'\<rparr>"
  have "total_games st3 = PInt tg" using tg by (simp add: st3_def st2_def st1_def)
  from count_game_int [OF this, of g]
  obtain tg' where s4: "count_game g st3 = Inr (st3\<lparr>total_games := PInt tg'\<rparr>)" by blast
  define st4 where "st4 = st3\<lparr>total_games := PInt tg'\<rparr>"
  define w where "w = (of_int (wins (game_history s) + (if won g then 1 else 0)) / of_int (n + 1) :: real)"
  define st5 where "st5 = st4\<lparr>win_rate := PFloat w\<rparr>"
  have "total_rounds st4 = PInt (n + 1)" by (simp add: st4_def st3_def st2_def st1_def)
  moreover have "0 < n + 1" using n(2) by simp
  ultimately have s5: "update_win_rate (game_history s) g st4 = Inr st5"
    unfolding st5_def w_def by (rule update_win_rate_int)
  have res: "update_statistics s g = Inr (s\<lparr>player_stats := st5\<rparr>)"
    using s1 s2 s3 s4 s5
    by (simp add: update_statistics_def st3_def [symmetric] st4_def [symmetric])
       (simp add: st5_def)
  have "counting st5"
    using ch' by (simp add: counting_def st5_def st4_def st3_def st2_def st1_def tally_def
        int_valued_bump ivd)
  moreover have "total_rounds st5 = PInt (n + 1)"
    by (simp add: st5_def st4_def st3_def st2_def st1_def)
  moreover have "finger_counts st5 = PDict (tally d g)"
    by (simp add: st5_def st4_def st3_def st2_def st1_def)
  moreover have "win_rate st5 = PFloat w" by (simp add: st5_def)
  ultimately show ?thesis using res unfolding w_def by blast
qed

lemma update_model_counting:
  assumes c: "counting (player_stats s)"
    and n: "total_rounds (player_stats s) = PInt n" "0 \<le> n"
    and d: "finger_counts (player_stats s) = PDict d"
  shows "\<exists>s'. update_model lib now s g = Inr s'
              \<and> river_available s' = river_available s
              \<and> counting (player_stats s')
              \<and> total_rounds (player_stats s') = PInt (n + 1)
              \<and> finger_counts (player_stats s') = PDict (tally d g)
              \<and> game_history s' =
                  (if river_available s then game_history s @ [g] else game_history s)
              \<and> win_rate (player_stats s') =
                  PFloat (of_int (wins (game_history s) + (if won g then 1 else 0)) / of_int (n + 1))"
proof (cases "river_available s")
  case False
  from update_statistics_counting [OF c n d, of g] False show ?thesis
    by (auto simp: update_model_def)
next
  case True
  define s1 where "s1 = learn_round lib now s g"
  have um: "update_model lib now s g =
      (case update_statistics s1 g of Inl e \<Rightarrow> Inl e
       | Inr s2 \<Rightarrow> Inr (s2\<lparr>game_history := game_history s2 @ [g]\<rparr>))"
    using True by (simp add: update_model_def s1_def)
  have c1: "counting (player_stats s1)" and n1: "total_rounds (player_stats s1) = PInt n"
    and d1: "finger_counts (player_stats s1) = PDict d"
    using c n d by (simp_all add: s1_def learn_round_def Let_def)
  from update_statistics_counting [OF c1 n1 n(2) d1, of g]
  obtain st' where "update_statistics s1 g = Inr (s1\<lparr>player_stats := st'\<rparr>)"
    and "counting st'" "total_rounds st' = PInt (n + 1)" "finger_counts st' = PDict (tally d g)"
    and "win_rate st' =
      PFloat (of_int (wins (game_history s1) + (if won g then 1 else 0)) / of_int (n + 1))"
    by blast
  then show ?thesis using True um by (simp add: s1_def learn_round_def Let_def)
qed

lemma wins_append: "wins (xs @ ys) = wins xs + wins ys"
  by (simp add: wins_def)

lemma wins_single: "wins [g] = (if won g then 1 else 0)"
  by (simp add: wins_def)

lemma update_model_all_counting:
  assumes "counting (player_stats s)"
    and "total_rounds (player_stats s) = PInt n" "0 \<le> n"
    and "finger_counts (player_stats s) = PDict d"
  shows "\<exists>s'. update_model_all lib now s gs = Inr s'
              \<and> river_available s' = river_available s
              \<and> counting (player_stats s')
              \<and> total_rounds (player_stats s') = PInt (n + int (length gs))
              \<and> finger_counts (player_stats s') = PDict (foldl tally d gs)
              \<and> game_history s' =
                  (if river_available s then game_history s @ gs else game_history s)
              \<and> (gs \<noteq> [] \<longrightarrow> win_rate (player_stats s') =
                    PFloat (of_int
                       (wins (if river_available s then game_history s @ butlast gs
                              else game_history s) + wins [last gs])
                     / of_int (n + int (length gs))))"
  using assms
proof (induction gs arbitrary: s n d)
  case Nil
  then show ?case by simp
next
  case (Cons g gs)
  from update_model_counting [OF Cons.prems, of lib now g]
  obtain s1 where s1: "update_model lib now s g = Inr s1"
    "river_available s1 = river_available s" "counting (player_stats s1)"
    "total_rounds (player_stats s1) = PInt (n + 1)"
    "finger_counts (player_stats s1) = PDict (tally d g)"
    "game_history s1 = (if river_available s then game_history s @ [g] else game_history s)"
    "win_rate (player_stats s1) =
       PFloat (of_int (wins (game_history s) + (if won g then 1 else 0)) / of_int (n + 1))"
    by blast
  have n1: "0 \<le> n + 1" using Cons.prems(3) by simp
  from Cons.IH [OF s1(3) s1(4) n1 s1(5)]
  obtain s' where s': "update_model_all lib now s1 gs = Inr s'"
    "river_available s' = river_available s1" "counting (player_stats s')"
    "total_rounds (player_stats s') = PInt (n + 1 + int (length gs))"
    "finger_counts (player_stats s') = PDict (foldl tally (tally d g) gs)"
    "game_history s' = (if river_available s1 then game_history s1 @ gs else game_history s1)"
    "gs \<noteq> [] \<longrightarrow> win_rate (player_stats s') =
        PFloat (of_int (wins (if river_available s1 then game_history s1 @ butlast gs
                              else game_history s1) + wins [last gs])
                / of_int (n + 1 + int (length gs)))"
    by blast
  have run: "update_model_all lib now s (g # gs) = Inr s'" using s1(1) s'(1) by simp
  have hist: "game_history s' =
      (if river_available s then game_history s @ g # gs else game_history s)"
    using s'(6) s1(2,6) by simp
  have wr: "win_rate (player_stats s') =
      PFloat (of_int (wins (if river_available s then game_history s @ butlast (g # gs)
                            else game_history s) + wins [last (g # gs)])
              / of_int (n + int (length (g # gs))))"
  proof (cases "gs = []")
    case True
    then have "s' = s1" using s'(1) by simp
    then show ?thesis using s1(7) True by (simp add: wins_single)
  next
    case False
    then show ?thesis using s'(7) s1(2,6) by (simp add: add.assoc add.commute)
  qed
  show ?case
    using run hist wr s'(2,3,4,5) s1(2) by (simp add: add.assoc add.commute)
qed

lemma values_total_tally:
  "values_total (tally d g) = values_total d + (if in_range g then 1 else 0)"
  by (simp add: tally_def values_total_bump)

lemma values_total_foldl_tally:
  "values_total (foldl tally d gs) = values_total d + int (length (filter in_range gs))"
  by (induction gs arbitrary: d) (simp_all add: values_total_tally)

lemma int_valued_tally: "int_valued d \<Longrightarrow> int_valued (tally d g)"
  by (simp add: tally_def int_valued_bump)

lemma int_valued_foldl_tally: "int_valued d \<Longrightarrow> int_valued (foldl tally d gs)"
  by (induction gs arbitrary: d) (simp_all add: int_valued_tally)

lemma usage_total_bump_other:
  "SKey k \<notin> set ks \<Longrightarrow> sum_list (map (usage (bump k d)) ks) = sum_list (map (usage d) ks)"
  by (induction ks) (auto simp: usage_bump)

lemma usage_total_bump:
  assumes "distinct ks" and "SKey k \<in> set ks"
  shows "usage_total (bump k d) ks = usage_total d ks + 1"
  using assms unfolding usage_total_def
proof (induction ks)
  case Nil
  then show ?case by simp
next
  case (Cons a ks)
  show ?case
  proof (cases "a = SKey k")
    case True
    then have "SKey k \<notin> set ks" using Cons.prems(1) by simp
    then have rest: "sum_list (map (usage (bump k d)) ks) = sum_list (map (usage d) ks)"
      by (rule usage_total_bump_other)
    have "usage (bump k d) a = usage d a + 1" using True by (simp add: usage_bump)
    then show ?thesis by (simp only: list.map sum_list.Cons rest)
  next
    case False
    then have "SKey k \<in> set ks" using Cons.prems(2) by simp
    with Cons have rest: "sum_list (map (usage (bump k d)) ks) = sum_list (map (usage d) ks) + 1"
      by simp
    have "usage (bump k d) a = usage d a" using False by (simp add: usage_bump)
    then show ?thesis by (simp only: list.map sum_list.Cons rest)
  qed
qed

lemma distinct_finger_keys: "distinct finger_keys"
  by (simp add: finger_keys_eq)

lemma usage_total_tally:
  "usage_total (tally d g) finger_keys = usage_total d finger_keys + (if in_range g then 1 else 0)"
  by (simp add: tally_def usage_total_bump [OF distinct_finger_keys in_range_key])

lemma usage_total_foldl_tally:
  "usage_total (foldl tally d gs) finger_keys =
     usage_total d finger_keys + int (length (filter in_range gs))"
  by (induction gs arbitrary: d) (simp_all add: usage_total_tally)

lemma default_stats_counting:
  "counting default_stats" "total_rounds default_stats = PInt 0"
  "finger_counts default_stats = PDict default_counts"
  by (simp_all add: default_stats_def counting_def int_valued_def default_counts_def)

lemma default_counts_totals:
  "values_total default_counts = 0" "usage_total default_counts finger_keys = 0"
  "int_valued default_counts"
  by (simp_all add: default_counts_def values_total_def usage_total_def usage_def
      finger_keys_eq int_valued_def)

lemma run_from_default:
  assumes "player_stats s = default_stats"
  shows "\<exists>s'. update_model_all lib now s gs = Inr s'
              \<and> river_available s' = river_available s
              \<and> counting (player_stats s')
              \<and> total_rounds (player_stats s') = PInt (int (length gs))
              \<and> finger_counts (player_stats s') = PDict (foldl tally default_counts gs)
              \<and> game_history s' =
                  (if river_available s then game_history s @ gs else game_history s)
              \<and> (gs \<noteq> [] \<longrightarrow> win_rate (player_stats s') =
                    PFloat (of_int
                       (wins (if river_available s then game_history s @ butlast gs
                              else game_history s) + wins [last gs])
                     / of_int (int (length gs))))"
proof -
  have c: "counting (player_stats s)" and n: "total_rounds (player_stats s) = PInt 0"
    and d: "finger_counts (player_stats s) = PDict default_counts"
    using assms default_stats_counting by simp_all
  have z: "(0::int) \<le> 0" by simp
  from update_model_all_counting [OF c n z d, of lib now gs] show ?thesis
    unfolding add_0 by blast
qed

text \<open>
  Claim C3. After N calls of \<open>update_model\<close> on a freshly constructed predictor, in either
  mode and whatever the library does, every call has returned, \<^verbatim>\<open>total_rounds\<close> is N,
  and the usage counts of the finger counts 1 to 5 (the entries \<^verbatim>\<open>'1'\<close> to \<^verbatim>\<open>'5'\<close>
  that \<open>_update_statistics\<close> writes, as in \<^verbatim>\<open>finger_counts["2"]\<close>) add up to the number
  of those rounds whose finger count lies in 1..5; so does the sum of all values of the
  mapping, all of which are integers. A round with another count (0 fingers detected)
  counts as a round only.
\<close>

theorem update_model_counts_rounds:
  "\<exists>s' d. update_model_all lib now (init_predictor available models) gs = Inr s'
      \<and> total_rounds (player_stats s') = PInt (int (length gs))
      \<and> finger_counts (player_stats s') = PDict d
      \<and> int_valued d
      \<and> usage_total d finger_keys = int (length (filter in_range gs))
      \<and> values_total d = int (length (filter in_range gs))"
proof -
  have "player_stats (init_predictor available models) = default_stats"
    by (simp add: init_predictor_def)
  from run_from_default [OF this, of lib now gs]
  obtain s' where "update_model_all lib now (init_predictor available models) gs = Inr s'"
    "total_rounds (player_stats s') = PInt (int (length gs))"
    "finger_counts (player_stats s') = PDict (foldl tally default_counts gs)"
    by blast
  moreover have "int_valued (foldl tally default_counts gs)"
    by (simp add: int_valued_foldl_tally default_counts_totals)
  moreover have "usage_total (foldl tally default_counts gs) finger_keys
      = int (length (filter in_range gs))"
    by (simp add: usage_total_foldl_tally default_counts_totals)
  moreover have "values_total (foldl tally default_counts gs) = int (length (filter in_range gs))"
    by (simp add: values_total_foldl_tally default_counts_totals)
  ultimately show ?thesis by blast
qed

theorem update_model_counts_rounds_witness:
  "\<exists>s' d. update_model_all untrained_river noon (init_predictor False ())
             [a_round 2 ''evens'' True, a_round 0 ''odds'' False, a_round 2 ''evens'' True] = Inr s'
      \<and> total_rounds (player_stats s') = PInt 3
      \<and> finger_counts (player_stats s') = PDict d
      \<and> usage_total d finger_keys = 2
      \<and> values_total d = 2"
proof -
  have "int (length (filter in_range
      [a_round 2 ''evens'' True, a_round 0 ''odds'' False, a_round 2 ''evens'' True])) = 2"
    by (simp add: in_range_def a_round_def fingers_of_def)
  then show ?thesis
    using update_model_counts_rounds [of untrained_river noon False "()"
        "[a_round 2 ''evens'' True, a_round 0 ''odds'' False, a_round 2 ''evens'' True]"]
    by auto
qed

lemma win_rate_online:
  assumes "gs \<noteq> []"
  shows "\<exists>s'. update_model_all lib now (init_predictor True models) gs = Inr s'
            \<and> game_history s' = gs
            \<and> win_rate (player_stats s') = PFloat (of_int (wins gs) / of_int (int (length gs)))"
proof -
  let ?s = "init_predictor True models"
  have "player_stats ?s = default_stats" by (simp add: init_predictor_def)
  from run_from_default [OF this, of lib now gs]
  obtain s' where s': "update_model_all lib now ?s gs = Inr s'"
    "game_history s' = (if river_available ?s then game_history ?s @ gs else game_history ?s)"
    "gs \<noteq> [] \<longrightarrow> win_rate (player_stats s') =
        PFloat (of_int (wins (if river_available ?s then game_history ?s @ butlast gs
                              else game_history ?s) + wins [last gs])
                / of_int (int (length gs)))"
    by blast
  have "wins (butlast gs) + wins [last gs] = wins gs"
    using assms by (metis append_butlast_last_id wins_append)
  then show ?thesis using s' assms by (simp add: init_predictor_def)
qed

lemma win_rate_degraded:
  assumes "gs \<noteq> []"
  shows "\<exists>s'. update_model_all lib now (init_predictor False models) gs = Inr s'
            \<and> game_history s' = []
            \<and> win_rate (player_stats s') =
                PFloat (of_int (wins [last gs]) / of_int (int (length gs)))"
proof -
  let ?s = "init_predictor False models"
  have "player_stats ?s = default_stats" by (simp add: init_predictor_def)
  from run_from_default [OF this, of lib now gs]
  obtain s' where s': "update_model_all lib now ?s gs = Inr s'"
    "game_history s' = (if river_available ?s then game_history ?s @ gs else game_history ?s)"
    "gs \<noteq> [] \<longrightarrow> win_rate (player_stats s') =
        PFloat (of_int (wins (if river_available ?s then game_history ?s @ butlast gs
                              else game_history ?s) + wins [last gs])
                / of_int (int (length gs)))"
    by blast
  then show ?thesis using assms by (simp add: init_predictor_def wins_def)
qed

text \<open>
  Claim C5, evaluated. With the library the win rate after rounds \<open>gs\<close> is the number of
  won rounds divided by the number of rounds (\<open>win_rate_online\<close>). Without it the history
  stays empty, so only the round being recorded is counted (\<open>win_rate_degraded\<close>): after
  a won round and a lost round the recorded win rate is 0, with one win in two rounds.
\<close>

theorem degraded_win_rate_ignores_earlier_rounds:
  "\<exists>s'. update_model_all untrained_river noon (init_predictor False ())
           [a_round 2 ''evens'' True, a_round 2 ''evens'' False] = Inr s'
      \<and> total_rounds (player_stats s') = PInt 2
      \<and> wins [a_round 2 ''evens'' True, a_round 2 ''evens'' False] = 1
      \<and> win_rate (player_stats s') = PFloat 0"
proof -
  let ?gs = "[a_round 2 ''evens'' True, a_round 2 ''evens'' False]"
  have "player_stats (init_predictor False ()) = default_stats" by (simp add: init_predictor_def)
  from run_from_default [OF this, of untrained_river noon ?gs]
  show ?thesis by (auto simp: init_predictor_def wins_def won_def a_round_def)
qed

section \<open>The history\<close>

lemma update_statistics_history:
  "update_statistics s g = Inr s' \<Longrightarrow>
     game_history s' = game_history s \<and> river_available s' = river_available s
     \<and> model_state s' = model_state s"
  by (auto simp: update_statistics_def split: sum.splits)

lemma update_model_online_appends:
  assumes "river_available s" and "update_model lib now s g = Inr s'"
  shows "game_history s' = game_history s @ [g]"
  using assms
  by (auto simp: update_model_def learn_round_def Let_def split: sum.splits
      dest!: update_statistics_history)

lemma update_model_degraded_keeps:
  assumes "\<not> river_available s" and "update_model lib now s g = Inr s'"
  shows "game_history s' = game_history s"
  using assms by (auto simp: update_model_def dest: update_statistics_history)

text \<open>
  Claim C4, evaluated. With the library a returning call of \<open>update_model\<close> appends its
  round to the history (\<open>update_model_online_appends\<close>); without it the history is left
  as it was (\<open>update_model_degraded_keeps\<close>): on a fresh predictor in the degraded mode
  the history is still empty after a round.
\<close>

theorem degraded_update_model_appends_nothing:
  "map_sum id game_history
     (update_model untrained_river noon (init_predictor False ()) (a_round 2 ''evens'' True))
   = Inr []"
proof -
  have "player_stats (init_predictor False ()) = default_stats" by (simp add: init_predictor_def)
  from run_from_default [OF this, of untrained_river noon "[a_round 2 ''evens'' True]"]
  show ?thesis by (auto simp: init_predictor_def split: sum.splits)
qed

section \<open>Errors of the selector and the caller's validation\<close>

lemma good_choices_loop_error:
  "py_add_int p 1 = Inl e \<Longrightarrow> good_choices_loop p t (r # rs) good = Inl e"
  by (cases p) simp_all

lemma random_choice_valid: "random_choice rnd valid_numbers \<in> {1..5}"
proof -
  have "random_choice rnd valid_numbers \<in> set valid_numbers"
    by (rule random_choice_mem) (simp add: valid_numbers_def)
  then show ?thesis by (auto simp: valid_numbers_def)
qed

text \<open>
  Claim C9, as amended. When the computation of the candidates raises an exception (as
  it does for every prediction whose finger count is a string), \<open>get_robot_strategy\<close>
  returns the fixed default 3, whatever the random draw. The caller keeps a selector
  answer that is one of 1 to 5 and replaces any other by a pick from the list 1 to 5, so
  the number the robot shows always lies in 1..5.
\<close>

theorem selector_error_default_and_validation:
  "(good_choices_loop p (if c = PStr ''odds'' then ''even'' else ''odd'') [1, 2, 3, 4, 5] [] = Inl e
      \<longrightarrow> get_robot_strategy rnd p c = 3)
   \<and> get_robot_strategy rnd (PStr k) c = 3
   \<and> smart_robot_number rnd a \<in> {1..5}
   \<and> (a \<in> {1..5} \<longrightarrow> smart_robot_number rnd a = a)
   \<and> (a \<notin> {1..5} \<longrightarrow> smart_robot_number rnd a = random_choice rnd [1, 2, 3, 4, 5])"
proof -
  have v: "set valid_numbers = {1..5}" by (auto simp: valid_numbers_def)
  have "get_robot_strategy rnd (PStr k) c = 3"
    by (simp add: get_robot_strategy_def robot_strategy_try_def)
  moreover have "smart_robot_number rnd a \<in> {1..5}"
    using random_choice_valid [of rnd] by (simp add: smart_robot_number_def v)
  moreover have "a \<in> {1..5} \<longrightarrow> smart_robot_number rnd a = a"
    by (simp add: smart_robot_number_def v)
  moreover have "a \<notin> {1..5} \<longrightarrow> smart_robot_number rnd a = random_choice rnd [1, 2, 3, 4, 5]"
    by (simp add: smart_robot_number_def v) (simp add: valid_numbers_def)
  moreover have "good_choices_loop p (if c = PStr ''odds'' then ''even'' else ''odd'')
       [1, 2, 3, 4, 5] [] = Inl e \<longrightarrow> get_robot_strategy rnd p c = 3"
    by (simp add: get_robot_strategy_def robot_strategy_try_def)
  ultimately show ?thesis by blast
qed

theorem selector_error_default_and_validation_witness:
  "good_choices_loop (PNone) ''even'' [1, 2, 3, 4, 5] [] = Inl TypeError
   \<and> get_robot_strategy 4 PNone (PStr ''odds'') = 3
   \<and> get_robot_strategy 4 (PStr ''3'') (PStr ''odds'') = 3
   \<and> smart_robot_number 4 0 = 5
   \<and> smart_robot_number 4 2 = 2"
proof -
  have r: "random_choice 4 [1, 2, 3, 4, 5 :: int] = 5" by (simp add: random_choice_def)
  have l: "good_choices_loop PNone ''even'' [1, 2, 3, 4, 5] [] = Inl TypeError" by simp
  show ?thesis
    using selector_error_default_and_validation [of PNone "PStr ''odds''" TypeError 4 "''3''" 0]
      selector_error_default_and_validation [of PNone "PStr ''odds''" TypeError 4 "''3''" 2] r l
    by simp
qed

text \<open>
  Claim C9 as stated fails: on an internal error the selector answers 3 for two draws
  on which a random pick over 1 to 5 differs.
\<close>

theorem selector_error_not_random_counterexample:
  "get_robot_strategy 0 (PStr ''3'') (PStr ''odds'') = 3
   \<and> get_robot_strategy 1 (PStr ''3'') (PStr ''odds'') = 3
   \<and> random_choice 0 valid_numbers = 1
   \<and> random_choice 1 valid_numbers = 2"
  by (simp add: get_robot_strategy_def robot_strategy_try_def random_choice_def valid_numbers_def)

lemma selector_no_candidate:
  "get_robot_strategy rnd (PFloat (5 / 2)) (PStr ''evens'') = 3"
  by (simp add: get_robot_strategy_def robot_strategy_try_def)

section \<open>Integer keys and string keys\<close>

lemma set_update_subset: "set (AList.update k v d) \<subseteq> insert (k, v) (set d)"
  by (induction d) auto

lemma keys_update: "fst ` set (AList.update k v d) = insert k (fst ` set d)"
  using dom_update [of k v d] by simp

lemma tally_int_entries:
  assumes "(IKey i, v) \<in> set (tally d g)"
  shows "(IKey i, v) \<in> set d"
  using assms set_update_subset [of "SKey (py_str_int (fingers_of g))" _ d]
  by (auto simp: tally_def bump_def split: if_splits)

lemma foldl_tally_int_entries:
  "(IKey i, v) \<in> set (foldl tally d gs) \<Longrightarrow> (IKey i, v) \<in> set d"
  by (induction gs arbitrary: d) (auto dest: tally_int_entries)

lemma map_of_tally_int: "map_of (tally d g) (IKey i) = map_of d (IKey i)"
  by (simp add: tally_def bump_def update_conv')

lemma map_of_foldl_tally_int: "map_of (foldl tally d gs) (IKey i) = map_of d (IKey i)"
  by (induction gs arbitrary: d) (simp_all add: map_of_tally_int)

lemma keys_tally:
  "fst ` set (tally d g) =
     (if in_range g then insert (SKey (py_str_int (fingers_of g))) (fst ` set d) else fst ` set d)"
  by (simp add: tally_def bump_def keys_update)

lemma keys_foldl_tally_mono: "fst ` set d \<subseteq> fst ` set (foldl tally d gs)"
proof (induction gs arbitrary: d)
  case Nil
  show ?case by simp
next
  case (Cons g gs)
  have "fst ` set d \<subseteq> fst ` set (tally d g)" by (auto simp: keys_tally)
  also have "\<dots> \<subseteq> fst ` set (foldl tally (tally d g) gs)" by (rule Cons.IH)
  finally show ?case by simp
qed

lemma keys_foldl_tally_in_range:
  "g \<in> set gs \<Longrightarrow> in_range g \<Longrightarrow>
     SKey (py_str_int (fingers_of g)) \<in> fst ` set (foldl tally d gs)"
proof (induction gs arbitrary: d)
  case Nil
  then show ?case by simp
next
  case (Cons a gs)
  show ?case
  proof (cases "g = a")
    case True
    have "SKey (py_str_int (fingers_of g)) \<in> fst ` set (tally d a)"
      using True Cons.prems(2) by (simp add: keys_tally)
    then show ?thesis using keys_foldl_tally_mono [of "tally d a" gs] by auto
  next
    case False
    then have "g \<in> set gs" using Cons.prems(1) by simp
    from Cons.IH [OF this Cons.prems(2)] show ?thesis by simp
  qed
qed

lemma keys_foldl_tally_subset:
  "fst ` set (foldl tally d gs) \<subseteq> fst ` set d \<union> set finger_keys"
proof (induction gs arbitrary: d)
  case Nil
  show ?case by simp
next
  case (Cons g gs)
  have "fst ` set (tally d g) \<subseteq> fst ` set d \<union> set finger_keys"
    using in_range_key [of g] by (auto simp: keys_tally split: if_splits)
  with Cons.IH [of "tally d g"] show ?case by auto
qed

lemma numbers_int_valued:
  "int_valued d \<Longrightarrow> numbers d = Some (map (\<lambda>(k, v). (k, of_int (int_of_value v))) d)"
proof (induction d)
  case Nil
  show ?case by simp
next
  case (Cons p d)
  obtain k v where p: "p = (k, v)" by (cases p)
  with Cons.prems obtain c where "v = PInt c" and "int_valued d"
    by (auto simp: int_valued_def is_int_conv)
  with Cons.IH p show ?case by simp
qed

lemma sum_numbers:
  "sum_list (map snd (map (\<lambda>(k, v). (k, real_of_int (int_of_value v))) d))
     = real_of_int (values_total d)"
  by (induction d) (auto simp: values_total_def)

lemma max_key_is_maximal:
  "\<exists>x'. (max_key k x rest, x') \<in> set ((k, x) # rest) \<and> (\<forall>(a, b) \<in> set ((k, x) # rest). b \<le> x')"
proof (induction rest arbitrary: k x)
  case Nil
  show ?case by simp
next
  case (Cons p rest)
  obtain k1 x1 where p: "p = (k1, x1)" by (cases p)
  show ?case
  proof (cases "x1 > x")
    case True
    from Cons.IH [of k1 x1] obtain x' where
      "(max_key k1 x1 rest, x') \<in> set ((k1, x1) # rest)" "\<forall>(a, b) \<in> set ((k1, x1) # rest). b \<le> x'"
      by blast
    then show ?thesis using True p by (intro exI [of _ x']) auto
  next
    case False
    from Cons.IH [of k x] obtain x' where
      "(max_key k x rest, x') \<in> set ((k, x) # rest)" "\<forall>(a, b) \<in> set ((k, x) # rest). b \<le> x'"
      by blast
    then show ?thesis using False p by (intro exI [of _ x']) auto
  qed
qed

lemma sum_list_pos_has_pos:
  "sum_list (xs :: real list) > 0 \<Longrightarrow> \<exists>x \<in> set xs. x > 0"
proof (induction xs)
  case Nil
  then show ?case by simp
next
  case (Cons a xs)
  show ?case
  proof (cases "a > 0")
    case True
    then show ?thesis by simp
  next
    case False
    with Cons.prems have "sum_list xs > 0" by simp
    with Cons.IH show ?thesis by auto
  qed
qed

lemma most_common_int_valued:
  assumes "int_valued d"
  shows "\<exists>v. most_common (PDict d) dflt = Inr v"
proof (cases d)
  case Nil
  then show ?thesis by (simp add: most_common_def)
next
  case (Cons p rest)
  obtain k v where "p = (k, v)" by (cases p)
  then show ?thesis
    using Cons numbers_int_valued [OF assms] by (simp add: most_common_def)
qed

lemma most_common_positive:
  assumes iv: "int_valued d" and pos: "values_total d > 0"
  shows "\<exists>k c. most_common (PDict d) dflt = Inr (key_value k) \<and> (k, PInt c) \<in> set d \<and> c > 0"
proof -
  define kxs where "kxs = map (\<lambda>(k, v). (k, real_of_int (int_of_value v))) d"
  have nums: "numbers d = Some kxs" unfolding kxs_def using iv by (rule numbers_int_valued)
  have sum: "sum_list (map snd kxs) > 0" unfolding kxs_def using pos by (simp only: sum_numbers)
  then obtain y where y: "y \<in> set (map snd kxs)" "y > 0"
    using sum_list_pos_has_pos by blast
  from y(1) obtain ky where ky: "(ky, y) \<in> set kxs" by auto
  then obtain k0 x0 rest where kxs: "kxs = (k0, x0) # rest" by (cases kxs) auto
  from max_key_is_maximal [of k0 x0 rest] obtain x' where
    x': "(max_key k0 x0 rest, x') \<in> set kxs" "\<forall>(a, b) \<in> set kxs. b \<le> x'"
    unfolding kxs by blast
  from ky x'(2) have "y \<le> x'" by auto
  with y(2) have "x' > 0" by simp
  from x'(1) obtain v where v: "(max_key k0 x0 rest, v) \<in> set d" "x' = real_of_int (int_of_value v)"
    unfolding kxs_def by auto
  from v(1) iv obtain c where c: "v = PInt c" by (auto simp: int_valued_def list_all_iff is_int_conv)
  with v(2) \<open>x' > 0\<close> have "c > 0" by simp
  have "most_common (PDict d) dflt = Inr (key_value (max_key k0 x0 rest))"
    using nums sum kxs by (simp add: most_common_def)
  with v(1) c \<open>c > 0\<close> show ?thesis by blast
qed

lemma backfill_dict:
  "\<exists>fc'. backfill is (PDict fc) = Inr (PDict fc')
      \<and> (\<forall>k. map_of fc' k =
            (if k \<in> (\<lambda>i. SKey (py_str_int i)) ` set is \<and> map_of fc k = None then Some (PInt 0)
             else map_of fc k))"
proof (induction "is" arbitrary: fc)
  case Nil
  show ?case by simp
next
  case (Cons i "is")
  let ?k = "SKey (py_str_int i)"
  show ?case
  proof (cases "?k \<in> fst ` set fc")
    case True
    then have some: "map_of fc ?k \<noteq> None" by (simp add: map_of_eq_None_iff)
    from Cons.IH [of fc] obtain fc' where
      "backfill is (PDict fc) = Inr (PDict fc')"
      "\<forall>k. map_of fc' k = (if k \<in> (\<lambda>i. SKey (py_str_int i)) ` set is \<and> map_of fc k = None
                            then Some (PInt 0) else map_of fc k)"
      by blast
    then show ?thesis using True some by (intro exI [of _ fc']) auto
  next
    case False
    then have none: "map_of fc ?k = None" by (simp add: map_of_eq_None_iff)
    from Cons.IH [of "AList.update ?k (PInt 0) fc"] obtain fc' where
      "backfill is (PDict (AList.update ?k (PInt 0) fc)) = Inr (PDict fc')"
      "\<forall>k. map_of fc' k =
          (if k \<in> (\<lambda>i. SKey (py_str_int i)) ` set is \<and> map_of (AList.update ?k (PInt 0) fc) k = None
           then Some (PInt 0) else map_of (AList.update ?k (PInt 0) fc) k)"
      by blast
    then show ?thesis using False none
      by (intro exI [of _ fc']) (auto simp: update_conv')
  qed
qed

lemma finger_keys_image: "set finger_keys = (\<lambda>i. SKey (py_str_int i)) ` set [1, 2, 3, 4, 5]"
  by (simp add: finger_keys_def)

lemma default_counts_int_entries:
  "i \<in> {1..5} \<Longrightarrow> map_of default_counts (IKey i) = Some (PInt 0)"
proof -
  assume "i \<in> {1..5}"
  then have "i = 1 \<or> i = 2 \<or> i = 3 \<or> i = 4 \<or> i = 5" by auto
  then show ?thesis by (auto simp: default_counts_def)
qed

lemma default_counts_entries: "(k, v) \<in> set default_counts \<Longrightarrow> v = PInt 0"
  by (auto simp: default_counts_def)

lemma default_counts_keys: "map fst default_counts = map IKey [1, 2, 3, 4, 5]"
  by (simp add: default_counts_def)

text \<open>
  Claim C10. On a predictor whose statistics are the defaults of the constructor and of
  \<open>reset_data\<close>, the finger-count mapping is keyed by the integers 1 to 5. After any
  sequence of \<open>update_model\<close> calls with at least one round in 1..5, every call has
  returned, the integer-keyed entries are all still 0, the mapping holds a string key
  for every in-range count that was played, and \<open>_simple_prediction\<close> answers one of the
  string keys \<^verbatim>\<open>'1'\<close> to \<^verbatim>\<open>'5'\<close> as the predicted finger count. The backfill of
  \<open>load_data\<close>, too, creates the string keys \<^verbatim>\<open>'1'\<close> to \<^verbatim>\<open>'5'\<close> and leaves every
  integer-keyed entry alone.
\<close>

theorem string_keys_beside_integer_keys:
  assumes "player_stats s = default_stats" and "\<exists>g \<in> set gs. in_range g"
  shows "finger_counts (player_stats s) = PDict default_counts
       \<and> map fst default_counts = map IKey [1, 2, 3, 4, 5]
       \<and> (\<exists>s' d p k.
             update_model_all lib now s gs = Inr s'
           \<and> finger_counts (player_stats s') = PDict d
           \<and> (\<forall>i \<in> {1..5}. map_of d (IKey i) = Some (PInt 0))
           \<and> (\<forall>g \<in> set gs. in_range g \<longrightarrow> SKey (py_str_int (fingers_of g)) \<in> set (map fst d))
           \<and> simple_prediction (player_stats s') = Inr p
           \<and> finger_count p = PStr k \<and> SKey k \<in> set finger_keys)
       \<and> (\<forall>d0. \<exists>d1. backfill [1, 2, 3, 4, 5] (PDict d0) = Inr (PDict d1)
              \<and> (\<forall>k \<in> set finger_keys. map_of d1 k \<noteq> None)
              \<and> (\<forall>i. map_of d1 (IKey i) = map_of d0 (IKey i)))"
proof -
  have fill: "\<exists>d1. backfill [1, 2, 3, 4, 5] (PDict d0) = Inr (PDict d1)
      \<and> (\<forall>k \<in> set finger_keys. map_of d1 k \<noteq> None)
      \<and> (\<forall>i. map_of d1 (IKey i) = map_of d0 (IKey i))" for d0
  proof -
    from backfill_dict [of "[1, 2, 3, 4, 5]" d0] obtain d1 where
      d1: "backfill [1, 2, 3, 4, 5] (PDict d0) = Inr (PDict d1)"
      "\<forall>k. map_of d1 k =
          (if k \<in> (\<lambda>i. SKey (py_str_int i)) ` set [1, 2, 3, 4, 5] \<and> map_of d0 k = None
           then Some (PInt 0) else map_of d0 k)"
      by blast
    have "\<forall>k \<in> set finger_keys. map_of d1 k \<noteq> None"
      using d1(2) unfolding finger_keys_image by auto
    moreover have "\<forall>i. map_of d1 (IKey i) = map_of d0 (IKey i)"
      using d1(2) by auto
    ultimately show ?thesis using d1(1) by blast
  qed
  from run_from_default [OF assms(1), of lib now gs]
  obtain s' where s': "update_model_all lib now s gs = Inr s'"
    "counting (player_stats s')"
    "finger_counts (player_stats s') = PDict (foldl tally default_counts gs)"
    by blast
  define d where "d = foldl tally default_counts gs"
  have iv: "int_valued d" unfolding d_def
    by (simp add: int_valued_foldl_tally default_counts_totals)
  have ints: "\<forall>i \<in> {1..5}. map_of d (IKey i) = Some (PInt 0)"
    unfolding d_def by (simp add: map_of_foldl_tally_int default_counts_int_entries)
  have strs: "\<forall>g \<in> set gs. in_range g \<longrightarrow> SKey (py_str_int (fingers_of g)) \<in> set (map fst d)"
    unfolding d_def using keys_foldl_tally_in_range by simp
  have "values_total d = int (length (filter in_range gs))"
    unfolding d_def by (simp add: values_total_foldl_tally default_counts_totals)
  moreover have "filter in_range gs \<noteq> []" using assms(2) by (simp add: filter_empty_conv)
  ultimately have pos: "values_total d > 0" by simp
  from most_common_positive [OF iv pos, of "PInt 3"]
  obtain k c where k: "most_common (PDict d) (PInt 3) = Inr (key_value k)"
    "(k, PInt c) \<in> set d" "c > 0"
    by blast
  have "\<exists>k'. k = SKey k'"
  proof (cases k)
    case (IKey i)
    with k(2) have "(IKey i, PInt c) \<in> set default_counts"
      unfolding d_def by (auto dest: foldl_tally_int_entries)
    then have "c = 0" by (auto dest: default_counts_entries)
    with k(3) show ?thesis by simp
  next
    case (SKey k')
    then show ?thesis by simp
  qed
  then obtain k' where k': "k = SKey k'" by blast
  have "k \<in> fst ` set d" using k(2) by force
  then have "k \<in> fst ` set default_counts \<union> set finger_keys"
    unfolding d_def using keys_foldl_tally_subset by blast
  then have fk: "SKey k' \<in> set finger_keys" using k' by (auto simp: default_counts_def)
  from s'(2) obtain ch where ch: "choice_history (player_stats s') = PDict ch" "int_valued ch"
    by (auto simp: counting_def split: pyval.splits)
  from most_common_int_valued [OF ch(2), of "PStr ''odds''"]
  obtain mc where mc: "most_common (PDict ch) (PStr ''odds'') = Inr mc" by blast
  define p where "p = \<lparr> finger_count = PStr k', choice = mc, confidence = 1 / 10 \<rparr>"
  have sp: "simple_prediction (player_stats s') = Inr p"
    using k(1) k' mc ch(1) s'(3) by (simp add: simple_prediction_def d_def p_def)
  have fc: "finger_count p = PStr k'" by (simp add: p_def)
  have init: "finger_counts (player_stats s) = PDict default_counts"
    using assms(1) by (simp add: default_stats_counting)
  have "\<exists>s' d p k.
        update_model_all lib now s gs = Inr s'
      \<and> finger_counts (player_stats s') = PDict d
      \<and> (\<forall>i \<in> {1..5}. map_of d (IKey i) = Some (PInt 0))
      \<and> (\<forall>g \<in> set gs. in_range g \<longrightarrow> SKey (py_str_int (fingers_of g)) \<in> set (map fst d))
      \<and> simple_prediction (player_stats s') = Inr p
      \<and> finger_count p = PStr k \<and> SKey k \<in> set finger_keys"
    using s'(1) s'(3) ints strs sp fc fk unfolding d_def by blast
  with init default_counts_keys fill show ?thesis by blast
qed

theorem string_keys_beside_integer_keys_witness:
  "\<exists>s' d.
      update_model_all untrained_river noon (init_predictor True ()) [a_round 3 ''odds'' False] = Inr s'
    \<and> finger_counts (player_stats s') = PDict d
    \<and> map_of d (IKey 3) = Some (PInt 0)
    \<and> SKey ''3'' \<in> set (map fst d)
    \<and> (\<exists>p k. simple_prediction (player_stats s') = Inr p \<and> finger_count p = PStr k)"
proof -
  have a: "player_stats (init_predictor True ()) = default_stats" by (simp add: init_predictor_def)
  have r: "in_range (a_round 3 ''odds'' False)"
    and f: "py_str_int (fingers_of (a_round 3 ''odds'' False)) = ''3''"
    by (simp_all add: in_range_def fingers_of_def a_round_def py_str_int_digits)
  have b: "\<exists>g \<in> set [a_round 3 ''odds'' False]. in_range g" using r by simp
  from string_keys_beside_integer_keys [OF a b, of untrained_river noon]
  obtain s' d p k where
    "update_model_all untrained_river noon (init_predictor True ()) [a_round 3 ''odds'' False] = Inr s'"
    "finger_counts (player_stats s') = PDict d"
    "\<forall>i \<in> {1..5}. map_of d (IKey i) = Some (PInt 0)"
    "\<forall>g \<in> set [a_round 3 ''odds'' False]. in_range g \<longrightarrow>
        SKey (py_str_int (fingers_of g)) \<in> set (map fst d)"
    "simple_prediction (player_stats s') = Inr p" "finger_count p = PStr k"
    by blast
  then show ?thesis using r f by (intro exI [of _ s'] exI [of _ d]) auto
qed

text \<open>
  Claim C2, evaluated. On a fresh predictor in the degraded mode, after one round with
  three fingers, the finger count of the prediction is the string \<^verbatim>\<open>'3'\<close>, not an
  integer. (On the online path the finger count is always an integer in 1..5:
  \<open>online_prediction_range\<close>.)
\<close>

theorem fallback_prediction_is_a_string:
  "(case update_model untrained_river noon (init_predictor False ()) (a_round 3 ''evens'' True) of
      Inl e \<Rightarrow> Inl e
    | Inr s' \<Rightarrow> map_sum id (finger_count \<circ> fst)
                 (predict_player_behavior untrained_river noon s' first_round))
   = Inr (PStr ''3'')"
proof -
  have a: "player_stats (init_predictor False ()) = default_stats" by (simp add: init_predictor_def)
  have t: "tally default_counts (a_round 3 ''evens'' True)
      = default_counts @ [(SKey ''3'', PInt 1)]"
    by (simp add: tally_def in_range_def fingers_of_def a_round_def py_str_int_digits
        bump_def usage_def default_counts_def)
  from run_from_default [OF a, of untrained_river noon "[a_round 3 ''evens'' True]"]
  obtain s' where s': "update_model untrained_river noon (init_predictor False ())
        (a_round 3 ''evens'' True) = Inr s'"
    "river_available s' = False" "counting (player_stats s')"
    "finger_counts (player_stats s') = PDict (default_counts @ [(SKey ''3'', PInt 1)])"
    by (auto simp: t init_predictor_def split: sum.splits)
  from s'(3) obtain ch where ch: "choice_history (player_stats s') = PDict ch" "int_valued ch"
    by (auto simp: counting_def split: pyval.splits)
  from most_common_int_valued [OF ch(2), of "PStr ''odds''"]
  obtain mc where mc: "most_common (PDict ch) (PStr ''odds'') = Inr mc" by blast
  have "most_common (PDict (default_counts @ [(SKey ''3'', PInt 1)])) (PInt 3) = Inr (PStr ''3'')"
    by (simp add: most_common_def default_counts_def)
  then have "simple_prediction (player_stats s')
      = Inr \<lparr> finger_count = PStr ''3'', choice = mc, confidence = 1 / 10 \<rparr>"
    using s'(4) ch(1) mc by (simp add: simple_prediction_def)
  then show ?thesis using s'(1,2) by (simp add: predict_player_behavior_def)
qed

section \<open>Predictions on an empty history\<close>

lemma online_prediction_range:
  assumes "online_prediction lib m f = Inr p"
  shows "(\<exists>n. finger_count p = PInt n \<and> 1 \<le> n \<and> n \<le> 5)
       \<and> (choice p = PStr ''odds'' \<or> choice p = PStr ''evens'')"
  using assms
  by (auto simp: online_prediction_def Let_def split: sum.splits if_splits)

lemma online_prediction_answer:
  assumes "predict_one lib m f = Inr (PFloat x)" and "predict_proba_one lib m f = Inr pr"
  shows "\<exists>p. online_prediction lib m f = Inr p
           \<and> finger_count p = PInt (max 1 (min 5 (round_half_even x)))
           \<and> (choice p = PStr ''odds'' \<longleftrightarrow> pr = [] \<or> or_default (1 / 2) (map_of pr True) > 1 / 2)"
  using assms by (simp add: online_prediction_def Let_def)

lemma simple_prediction_default:
  "simple_prediction default_stats
     = Inr \<lparr> finger_count = PInt 3, choice = PStr ''odds'', confidence = 1 / 10 \<rparr>"
  by (simp add: simple_prediction_def most_common_def default_stats_def)

text \<open>
  Claim C8, as amended. With an empty history and the default statistics,
  \<open>predict_player_behavior\<close> does not fail. In the degraded mode, and in the online mode
  when the estimators raise, it answers finger count 3, choice ``odds'', confidence 0.1.
  In the online mode it otherwise answers the estimator's output rounded and clamped into
  1..5, and ``odds'' only if the probability of ``odds'' exceeds one half or the
  probability mapping is empty.
\<close>

theorem empty_history_prediction:
  assumes "game_history s = []" and "player_stats s = default_stats"
  shows "(\<not> river_available s \<longrightarrow>
            predict_player_behavior lib now s gs =
              Inr (\<lparr> finger_count = PInt 3, choice = PStr ''odds'', confidence = 1 / 10 \<rparr>, s))
       \<and> (river_available s \<longrightarrow>
            (\<exists>p. predict_player_behavior lib now s gs = Inr (p, s\<lparr>last_predictions := p\<rparr>)
               \<and> (\<exists>n. finger_count p = PInt n \<and> 1 \<le> n \<and> n \<le> 5)
               \<and> (choice p = PStr ''odds'' \<or> choice p = PStr ''evens'')
               \<and> ((\<exists>e. online_prediction lib (model_state s) (extract_features now [] gs) = Inl e)
                    \<longrightarrow> p = \<lparr> finger_count = PInt 3, choice = PStr ''odds'', confidence = 1 / 10 \<rparr>)
               \<and> (\<forall>x pr. predict_one lib (model_state s) (extract_features now [] gs) = Inr (PFloat x)
                       \<and> predict_proba_one lib (model_state s) (extract_features now [] gs) = Inr pr
                    \<longrightarrow> finger_count p = PInt (max 1 (min 5 (round_half_even x)))
                      \<and> (choice p = PStr ''odds''
                           \<longleftrightarrow> pr = [] \<or> or_default (1 / 2) (map_of pr True) > 1 / 2))))"
proof (cases "river_available s")
  case False
  then show ?thesis
    using assms(2) by (simp add: predict_player_behavior_def simple_prediction_default)
next
  case True
  let ?f = "extract_features now [] gs"
  let ?dflt = "\<lparr> finger_count = PInt 3, choice = PStr ''odds'', confidence = 1 / 10 \<rparr>"
  show ?thesis
  proof (cases "online_prediction lib (model_state s) ?f")
    case (Inl e)
    then have run: "predict_player_behavior lib now s gs = Inr (?dflt, s\<lparr>last_predictions := ?dflt\<rparr>)"
      using True assms by (simp add: predict_player_behavior_def simple_prediction_default)
    have "\<not> (\<exists>x pr. predict_one lib (model_state s) ?f = Inr (PFloat x)
                \<and> predict_proba_one lib (model_state s) ?f = Inr pr)"
      using Inl online_prediction_answer [of lib "model_state s" ?f] by fastforce
    then show ?thesis using True run by auto
  next
    case (Inr p)
    then have run: "predict_player_behavior lib now s gs = Inr (p, s\<lparr>last_predictions := p\<rparr>)"
      using True assms by (simp add: predict_player_behavior_def)
    have ans: "\<forall>x pr. predict_one lib (model_state s) ?f = Inr (PFloat x)
                \<and> predict_proba_one lib (model_state s) ?f = Inr pr
              \<longrightarrow> finger_count p = PInt (max 1 (min 5 (round_half_even x)))
                \<and> (choice p = PStr ''odds'' \<longleftrightarrow> pr = [] \<or> or_default (1 / 2) (map_of pr True) > 1 / 2)"
      using Inr online_prediction_answer [of lib "model_state s" ?f] by fastforce
    from online_prediction_range [OF Inr] True run ans Inr show ?thesis by auto
  qed
qed

text \<open>
  Claim C8 as stated fails in the online mode: estimators that answer 0.0 and the
  probability one half, as freshly constructed ones do, give finger count 1 and choice
  ``evens''.
\<close>

theorem untrained_prediction_counterexample:
  "map_sum id fst (predict_player_behavior untrained_river noon (init_predictor True ()) first_round)
   = Inr \<lparr> finger_count = PInt 1, choice = PStr ''evens'', confidence = 0 \<rparr>"
  by (simp add: predict_player_behavior_def init_predictor_def online_prediction_def
      untrained_river_def round_half_even_def or_default_def Let_def)

theorem empty_history_prediction_witness:
  "predict_player_behavior untrained_river noon (init_predictor False ()) first_round
     = Inr (\<lparr> finger_count = PInt 3, choice = PStr ''odds'', confidence = 1 / 10 \<rparr>,
            init_predictor False ())
   \<and> (\<exists>p. predict_player_behavior untrained_river noon (init_predictor True ()) first_round
            = Inr (p, (init_predictor True ())\<lparr>last_predictions := p\<rparr>)
         \<and> finger_count p = PInt 1 \<and> choice p \<noteq> PStr ''odds'')"
proof -
  have h: "game_history (init_predictor b ()) = []"
    and st: "player_stats (init_predictor b ()) = default_stats"
    and av: "river_available (init_predictor b ()) = b" for b
    by (simp_all add: init_predictor_def)
  have po: "predict_one untrained_river m f = Inr (PFloat 0)"
    and pp: "predict_proba_one untrained_river m f = Inr [(False, 1 / 2), (True, 1 / 2)]" for m f
    by (simp_all add: untrained_river_def)
  have r0: "max 1 (min 5 (round_half_even 0)) = 1" by (simp add: round_half_even_def)
  have od: "\<not> ([(False, 1 / 2 :: real), (True, 1 / 2)] = []
              \<or> or_default (1 / 2) (map_of [(False, 1 / 2 :: real), (True, 1 / 2)] True) > 1 / 2)"
    by (simp add: or_default_def)
  from empty_history_prediction [OF h st, of False untrained_river noon first_round]
  have d: "predict_player_behavior untrained_river noon (init_predictor False ()) first_round
     = Inr (\<lparr> finger_count = PInt 3, choice = PStr ''odds'', confidence = 1 / 10 \<rparr>,
            init_predictor False ())"
    by (simp add: av)
  from empty_history_prediction [OF h st, of True untrained_river noon first_round]
  obtain p where p: "predict_player_behavior untrained_river noon (init_predictor True ()) first_round
            = Inr (p, (init_predictor True ())\<lparr>last_predictions := p\<rparr>)"
    "\<forall>x pr. predict_one untrained_river (model_state (init_predictor True ()))
               (extract_features noon [] first_round) = Inr (PFloat x)
          \<and> predict_proba_one untrained_river (model_state (init_predictor True ()))
               (extract_features noon [] first_round) = Inr pr
        \<longrightarrow> finger_count p = PInt (max 1 (min 5 (round_half_even x)))
          \<and> (choice p = PStr ''odds'' \<longleftrightarrow> pr = [] \<or> or_default (1 / 2) (map_of pr True) > 1 / 2)"
    by (auto simp: av)
  from p(2) po pp have "finger_count p = PInt (max 1 (min 5 (round_half_even 0)))"
    and "choice p = PStr ''odds'' \<longleftrightarrow> ([(False, 1 / 2 :: real), (True, 1 / 2)] = []
              \<or> or_default (1 / 2) (map_of [(False, 1 / 2 :: real), (True, 1 / 2)] True) > 1 / 2)"
    by blast+
  with r0 od have "finger_count p = PInt 1" "choice p \<noteq> PStr ''odds''" by simp_all
  with d p(1) show ?thesis by blast
qed

section \<open>Loading a statistics document\<close>












section \<open>Saving and loading again\<close>







lemma map_of_constant:
  "\<forall>(k, v) \<in> set xs. v = c \<Longrightarrow> map_of xs k = None \<or> map_of xs k = Some c"
  by (cases "map_of xs k") (auto dest: map_of_SomeD)











subsection \<open>The invariant of the reachable states\<close>



























subsection \<open>The round trip\<close>




end
